theory Spec2Isabelle
  imports Main "HOL-Library.Word"
begin

unbundle bit_operations_syntax

section \<open>Python values, exceptions and \<open>struct\<close>\<close>

type_synonym byte = "8 word"
type_synonym bytes = "byte list"

text \<open>The error codes a \<open>UcError\<close> of the emulation engine carries.\<close>

datatype uc_err =
    UC_ERR_ARG
  | UC_ERR_MAP
  | UC_ERR_READ_UNMAPPED
  | UC_ERR_WRITE_UNMAPPED
  | UC_ERR_FETCH_UNMAPPED
  | UC_ERR_FETCH_PROT
  | UC_ERR_INSN_INVALID
  | UC_ERR_EXCEPTION

text \<open>
  The exceptions that can travel through \<open>emulation.py\<close>. \<open>ProcessError\<close> stands for
  whatever exception the process-control service raises when a read of the real process
  fails.
\<close>

datatype error =
    NotImplementedError string
  | UcError uc_err
  | UnboundLocalError string
  | StructError
  | ValueError
  | ProcessError

definition is_UcError :: "error \<Rightarrow> bool" where
  "is_UcError e = (case e of UcError _ \<Rightarrow> True | _ \<Rightarrow> False)"

text \<open>The two \<open>struct\<close> formats the program uses: \<open>"<I"\<close> and \<open>"<Q"\<close>.\<close>

datatype fmt = LE_I | LE_Q

definition fmt_size :: "fmt \<Rightarrow> nat" where
  "fmt_size f = (case f of LE_I \<Rightarrow> 4 | LE_Q \<Rightarrow> 8)"

text \<open>
  Modelled from the spec: \<open>pointer_size_to_fmt\<close> of \<open>dump_utils\<close> is imported by
  \<open>emulation.py\<close> but is not part of the sources at hand. The spec fixes the word size
  to 4 or 8 bytes and the stored pointers to little-endian unsigned values of that size.
  It says nothing of other sizes; the model rejects them with an exception, so that no
  result below rests on a format for them.
\<close>

definition pointer_size_to_fmt :: "int \<Rightarrow> error + fmt" where
  "pointer_size_to_fmt pointer_size =
     (if pointer_size = 4 then Inr LE_I
      else if pointer_size = 8 then Inr LE_Q
      else Inl (NotImplementedError ''Platform not supported''))"

text \<open>Little-endian encoding of an unsigned value on \<open>n\<close> bytes, and its inverse.\<close>

fun le_bytes :: "nat \<Rightarrow> int \<Rightarrow> bytes" where
  "le_bytes 0 v = []"
| "le_bytes (Suc n) v = word_of_int v # le_bytes n (v div 256)"

fun le_value :: "bytes \<Rightarrow> int" where
  "le_value [] = 0"
| "le_value (b # bs) = uint b + 256 * le_value bs"

definition struct_pack :: "fmt \<Rightarrow> int \<Rightarrow> error + bytes" where
  "struct_pack f v =
     (if 0 \<le> v \<and> v < 2 ^ (8 * fmt_size f) then Inr (le_bytes (fmt_size f) v)
      else Inl StructError)"

definition struct_unpack :: "fmt \<Rightarrow> bytes \<Rightarrow> error + int" where
  "struct_unpack f data =
     (if length data = fmt_size f then Inr (le_value data) else Inl StructError)"

section \<open>The process-control service\<close>

text \<open>
  Modelled from the spec: the \<open>ProcessController\<close> class of \<open>process_control\<close> is
  imported by \<open>emulation.py\<close> but is not part of the sources at hand. The spec gives its
  interface: the attributes \<open>architecture\<close>, \<open>page_size\<close> and \<open>pointer_size\<close>, the
  method \<open>read_process_memory(address, length)\<close> answering bytes or an error, and the
  method \<open>enumerate_exported_functions()\<close> answering a mapping from address to metadata
  holding at least a name. The field \<open>memory_image\<close> is what the real process answers to
  a read (\<open>None\<close> when the read fails); \<open>calls\<close> records every method invocation in
  order.
\<close>

record exported_function =
  api_name :: string

datatype pc_call =
    ReadProcessMemory int int
  | EnumerateExportedFunctions

record process_controller =
  architecture :: string
  page_size :: int
  pointer_size :: int
  memory_image :: "int \<Rightarrow> int \<Rightarrow> bytes option"
  exported_functions :: "int \<rightharpoonup> exported_function"
  calls :: "pc_call list"

definition read_process_memory ::
  "'a process_controller_scheme \<Rightarrow> int \<Rightarrow> int \<Rightarrow> (error + bytes) \<times> 'a process_controller_scheme" where
  "read_process_memory pc address sz =
     ((case memory_image pc address sz of None \<Rightarrow> Inl ProcessError | Some data \<Rightarrow> Inr data),
      pc\<lparr>calls := calls pc @ [ReadProcessMemory address sz]\<rparr>)"

definition enumerate_exported_functions ::
  "'a process_controller_scheme \<Rightarrow> (int \<rightharpoonup> exported_function) \<times> 'a process_controller_scheme" where
  "enumerate_exported_functions pc =
     (exported_functions pc, pc\<lparr>calls := calls pc @ [EnumerateExportedFunctions]\<rparr>)"

section \<open>The emulation engine\<close>

text \<open>
  The engine is an external collaborator. Its state is modelled as far as the program
  observes it: the mapped regions (start, size, permissions), the memory contents, the
  registers, the model-specific registers, the installed hooks and the stop request of
  \<open>emu_stop\<close>. Values are Python integers; the engine's truncation to register width is
  not modelled.
\<close>

datatype uc_mode = UC_MODE_32 | UC_MODE_64

datatype reg =
    UC_X86_REG_EIP | UC_X86_REG_ESP | UC_X86_REG_EBP
  | UC_X86_REG_RIP | UC_X86_REG_RSP | UC_X86_REG_RBP

text \<open>
  A registered callback: the unmapped-memory callback, or the block callback together
  with the stop address of its \<open>user_data\<close> (the process controller of the
  \<open>user_data\<close> is the one threaded through the run).
\<close>

datatype hook = UC_HOOK_MEM_UNMAPPED | UC_HOOK_BLOCK int

type_synonym region = "int \<times> int \<times> int"

record emulator =
  uc_mode_of :: uc_mode
  uc_regions :: "region list"
  uc_mem :: "int \<Rightarrow> byte"
  uc_regs :: "reg \<Rightarrow> int"
  uc_msrs :: "int \<Rightarrow> int"
  uc_hooks :: "hook list"
  uc_stop_request :: bool

definition UC_PROT_READ :: int where "UC_PROT_READ = 1"
definition UC_PROT_WRITE :: int where "UC_PROT_WRITE = 2"
definition UC_PROT_EXEC :: int where "UC_PROT_EXEC = 4"
definition UC_PROT_ALL :: int where "UC_PROT_ALL = 7"

text \<open>
  \<open>Uc(UC_ARCH_X86, mode)\<close>: a fresh instance with nothing mapped and no callback.
  Creating an instance for one of the two modes is taken to succeed.
\<close>

definition Uc :: "uc_mode \<Rightarrow> emulator" where
  "Uc m = \<lparr>uc_mode_of = m, uc_regions = [], uc_mem = (\<lambda>_. 0), uc_regs = (\<lambda>_. 0),
           uc_msrs = (\<lambda>_. 0), uc_hooks = [], uc_stop_request = False\<rparr>"

definition in_region :: "int \<Rightarrow> region \<Rightarrow> bool" where
  "in_region a r = (case r of (b, s, p) \<Rightarrow> b \<le> a \<and> a < b + s)"

definition region_at :: "region list \<Rightarrow> int \<Rightarrow> region option" where
  "region_at rs a = find (in_region a) rs"

definition overlaps :: "region list \<Rightarrow> int \<Rightarrow> int \<Rightarrow> bool" where
  "overlaps rs a n = list_ex (\<lambda>r. case r of (b, s, p) \<Rightarrow> a < b + s \<and> b < a + n) rs"

text \<open>
  Whether the \<open>n\<close> bytes from \<open>a\<close> lie in mapped memory; the range may run through
  several adjacent regions, each visited at most once.
\<close>

fun covered :: "nat \<Rightarrow> region list \<Rightarrow> int \<Rightarrow> int \<Rightarrow> bool" where
  "covered 0 rs a n = (n \<le> 0)"
| "covered (Suc k) rs a n =
     (n \<le> 0 \<or>
      (case region_at rs a of
         None \<Rightarrow> False
       | Some (b, s, p) \<Rightarrow> covered k rs (b + s) (n - (b + s - a))))"

definition mem_covered :: "emulator \<Rightarrow> int \<Rightarrow> int \<Rightarrow> bool" where
  "mem_covered uc a n = covered (length (uc_regions uc)) (uc_regions uc) a n"

text \<open>
  \<open>mem_map\<close> wants a non-empty range aligned to 4 KiB that meets no mapped region; the
  new memory reads as zero.
\<close>

definition mem_map :: "emulator \<Rightarrow> int \<Rightarrow> int \<Rightarrow> int \<Rightarrow> error + emulator" where
  "mem_map uc address sz perms =
     (if sz \<le> 0 \<or> address < 0 \<or> address mod 4096 \<noteq> 0 \<or> sz mod 4096 \<noteq> 0
         \<or> perms AND (NOT UC_PROT_ALL) \<noteq> 0
      then Inl (UcError UC_ERR_ARG)
      else if overlaps (uc_regions uc) address sz then Inl (UcError UC_ERR_MAP)
      else Inr (uc\<lparr>uc_regions := uc_regions uc @ [(address, sz, perms)],
                   uc_mem := (\<lambda>x. if address \<le> x \<and> x < address + sz then 0 else uc_mem uc x)\<rparr>))"

definition mem_write :: "emulator \<Rightarrow> int \<Rightarrow> bytes \<Rightarrow> error + emulator" where
  "mem_write uc address data =
     (if mem_covered uc address (int (length data))
      then Inr (uc\<lparr>uc_mem := (\<lambda>x. if address \<le> x \<and> x < address + int (length data)
                                     then data ! nat (x - address) else uc_mem uc x)\<rparr>)
      else Inl (UcError UC_ERR_WRITE_UNMAPPED))"

definition mem_read :: "emulator \<Rightarrow> int \<Rightarrow> int \<Rightarrow> error + bytes" where
  "mem_read uc address sz =
     (if sz < 0 then Inl ValueError
      else if mem_covered uc address sz
      then Inr (map (\<lambda>i. uc_mem uc (address + int i)) [0..<nat sz])
      else Inl (UcError UC_ERR_READ_UNMAPPED))"

definition reg_read :: "emulator \<Rightarrow> reg \<Rightarrow> int" where
  "reg_read uc r = uc_regs uc r"

definition reg_write :: "emulator \<Rightarrow> reg \<Rightarrow> int \<Rightarrow> emulator" where
  "reg_write uc r v = uc\<lparr>uc_regs := (uc_regs uc)(r := v)\<rparr>"

text \<open>\<open>reg_write(UC_X86_REG_MSR, (id, value))\<close>.\<close>

definition msr_write :: "emulator \<Rightarrow> int \<Rightarrow> int \<Rightarrow> emulator" where
  "msr_write uc msr_id v = uc\<lparr>uc_msrs := (uc_msrs uc)(msr_id := v)\<rparr>"

definition hook_add :: "emulator \<Rightarrow> hook \<Rightarrow> emulator" where
  "hook_add uc h = uc\<lparr>uc_hooks := uc_hooks uc @ [h]\<rparr>"

definition emu_stop :: "emulator \<Rightarrow> emulator" where
  "emu_stop uc = uc\<lparr>uc_stop_request := True\<rparr>"


section \<open>The program: \<open>unlicense/emulation.py\<close>\<close>

definition STACK_MAGIC_RET_ADDR :: int where
  "STACK_MAGIC_RET_ADDR = 0xdeadbeef"

subsection \<open>Thread environment blocks (lines 89 to 114)\<close>

definition setup_teb_x86 ::
  "emulator \<Rightarrow> 'a process_controller_scheme \<Rightarrow> (error \<times> emulator) + emulator" where
  "setup_teb_x86 uc process_info =
     (let MSG_IA32_FS_BASE = 0xC0000100;
          teb_addr = 0xff100000;
          peb_addr = 0xff200000
      in case mem_map uc teb_addr (page_size process_info) (UC_PROT_READ OR UC_PROT_WRITE) of
           Inl e \<Rightarrow> Inl (e, uc)
         | Inr uc1 \<Rightarrow>
      (case mem_map uc1 peb_addr (page_size process_info) (UC_PROT_READ OR UC_PROT_WRITE) of
           Inl e \<Rightarrow> Inl (e, uc1)
         | Inr uc2 \<Rightarrow>
      (case pointer_size_to_fmt 4 of Inl e \<Rightarrow> Inl (e, uc2) | Inr f \<Rightarrow>
      (case struct_pack f teb_addr of Inl e \<Rightarrow> Inl (e, uc2) | Inr teb_bytes \<Rightarrow>
      (case mem_write uc2 (teb_addr + 0x18) teb_bytes of Inl e \<Rightarrow> Inl (e, uc2) | Inr uc3 \<Rightarrow>
      (case struct_pack f peb_addr of Inl e \<Rightarrow> Inl (e, uc3) | Inr peb_bytes \<Rightarrow>
      (case mem_write uc3 (teb_addr + 0x30) peb_bytes of Inl e \<Rightarrow> Inl (e, uc3) | Inr uc4 \<Rightarrow>
         Inr (msr_write uc4 MSG_IA32_FS_BASE teb_addr))))))))"

definition setup_teb_x64 ::
  "emulator \<Rightarrow> 'a process_controller_scheme \<Rightarrow> (error \<times> emulator) + emulator" where
  "setup_teb_x64 uc process_info =
     (let MSG_IA32_GS_BASE = 0xC0000101;
          teb_addr = 0xff10000000000000;
          peb_addr = 0xff20000000000000
      in case mem_map uc teb_addr (page_size process_info) (UC_PROT_READ OR UC_PROT_WRITE) of
           Inl e \<Rightarrow> Inl (e, uc)
         | Inr uc1 \<Rightarrow>
      (case mem_map uc1 peb_addr (page_size process_info) (UC_PROT_READ OR UC_PROT_WRITE) of
           Inl e \<Rightarrow> Inl (e, uc1)
         | Inr uc2 \<Rightarrow>
      (case pointer_size_to_fmt 8 of Inl e \<Rightarrow> Inl (e, uc2) | Inr f \<Rightarrow>
      (case struct_pack f teb_addr of Inl e \<Rightarrow> Inl (e, uc2) | Inr teb_bytes \<Rightarrow>
      (case mem_write uc2 (teb_addr + 0x30) teb_bytes of Inl e \<Rightarrow> Inl (e, uc2) | Inr uc3 \<Rightarrow>
      (case struct_pack f peb_addr of Inl e \<Rightarrow> Inl (e, uc3) | Inr peb_bytes \<Rightarrow>
      (case mem_write uc3 (teb_addr + 0x60) peb_bytes of Inl e \<Rightarrow> Inl (e, uc3) | Inr uc4 \<Rightarrow>
         Inr (msr_write uc4 MSG_IA32_GS_BASE teb_addr))))))))"

subsection \<open>The unmapped-memory callback (lines 117 to 138)\<close>

text \<open>
  Both \<open>except\<close> clauses answer \<open>False\<close>, whatever was raised; a page mapped before
  the raise stays mapped.
\<close>

definition unicorn_hook_unmapped ::
  "emulator \<Rightarrow> int \<Rightarrow> 'a process_controller_scheme
     \<Rightarrow> bool \<times> emulator \<times> 'a process_controller_scheme" where
  "unicorn_hook_unmapped uc address process_controller =
     (if address = 0 then (False, uc, process_controller)
      else
        let page_sz = page_size process_controller;
            aligned_addr = address - (address AND (page_sz - 1))
        in case read_process_memory process_controller aligned_addr page_sz of
             (Inl e, pc1) \<Rightarrow> (False, uc, pc1)
           | (Inr in_process_data, pc1) \<Rightarrow>
               (case mem_map uc aligned_addr (int (length in_process_data)) UC_PROT_ALL of
                  Inl e \<Rightarrow> (False, uc, pc1)
                | Inr uc1 \<Rightarrow>
                    (case mem_write uc1 aligned_addr in_process_data of
                       Inl e \<Rightarrow> (False, uc1, pc1)
                     | Inr uc2 \<Rightarrow> (True, uc2, pc1))))"

subsection \<open>The basic-block callback (lines 141 to 172)\<close>

definition is_no_return_api :: "string \<Rightarrow> bool" where
  "is_no_return_api name =
     (let NO_RETURN_APIS = [''ExitProcess'', ''FatalExit'', ''ExitThread'']
      in name \<in> set NO_RETURN_APIS)"

text \<open>
  The \<open>if\<close>/\<open>elif\<close> of lines 146 to 151 has no \<open>else\<close>: for another tag the two
  register variables stay unbound (\<open>None\<close> here), and reading one raises
  \<open>UnboundLocalError\<close>.
\<close>

definition hook_registers :: "string \<Rightarrow> reg option \<times> reg option" where
  "hook_registers arch =
     (if arch = ''ia32'' then (Some UC_X86_REG_EIP, Some UC_X86_REG_ESP)
      else if arch = ''x64'' then (Some UC_X86_REG_RIP, Some UC_X86_REG_RSP)
      else (None, None))"

definition unicorn_hook_block ::
  "emulator \<Rightarrow> int \<Rightarrow> 'a process_controller_scheme \<times> int
     \<Rightarrow> error option \<times> emulator \<times> 'a process_controller_scheme" where
  "unicorn_hook_block uc address user_data =
     (case user_data of (process_controller, stop_on_ret_addr) \<Rightarrow>
     (let ptr_size = pointer_size process_controller;
          arch = architecture process_controller
      in (case hook_registers arch of (pc_register, sp_register) \<Rightarrow>
         (case enumerate_exported_functions process_controller of (exports_dict, pc1) \<Rightarrow>
         (case exports_dict address of
            None \<Rightarrow> (None, uc, pc1)
          | Some export \<Rightarrow>
         (case sp_register of
            None \<Rightarrow> (Some (UnboundLocalError ''sp_register''), uc, pc1)
          | Some sp_reg \<Rightarrow>
         (case mem_read uc (reg_read uc sp_reg) ptr_size of
            Inl e \<Rightarrow> (Some e, uc, pc1)
          | Inr ret_addr_data \<Rightarrow>
         (case pointer_size_to_fmt ptr_size of
            Inl e \<Rightarrow> (Some e, uc, pc1)
          | Inr f \<Rightarrow>
         (case struct_unpack f ret_addr_data of
            Inl e \<Rightarrow> (Some e, uc, pc1)
          | Inr ret_addr \<Rightarrow>
              (if ret_addr = stop_on_ret_addr \<or> ret_addr = STACK_MAGIC_RET_ADDR
               then (None, emu_stop uc, pc1)
               else if is_no_return_api (api_name export)
               then (None, emu_stop uc, pc1)
               else (None, uc, pc1)))))))))))"

section \<open>The emulation run\<close>

text \<open>
  What the engine does between two callbacks is outside the program and stays a
  parameter: \<open>cpu\<close> says what executing the block at the current program counter does
  to registers and memory, that it touches memory at an address the engine finds
  unmapped, or that it faults. Every result below holds for every \<open>cpu\<close>.
\<close>

datatype cpu_result =
    Executed "reg \<Rightarrow> int" "int \<Rightarrow> byte"
  | MemFault int
  | CpuFault uc_err

type_synonym cpu = "emulator \<Rightarrow> cpu_result"

datatype fetch = FetchOk | FetchUnmapped | FetchProt

definition fetch_check :: "emulator \<Rightarrow> int \<Rightarrow> fetch" where
  "fetch_check uc a =
     (case region_at (uc_regions uc) a of
        None \<Rightarrow> FetchUnmapped
      | Some (b, s, p) \<Rightarrow> if p AND UC_PROT_EXEC \<noteq> 0 then FetchOk else FetchProt)"

definition engine_pc :: "uc_mode \<Rightarrow> reg" where
  "engine_pc m = (case m of UC_MODE_32 \<Rightarrow> UC_X86_REG_EIP | UC_MODE_64 \<Rightarrow> UC_X86_REG_RIP)"

text \<open>The engine calls the callbacks the program registered with \<open>hook_add\<close>.\<close>

definition dispatch_unmapped ::
  "emulator \<Rightarrow> int \<Rightarrow> 'a process_controller_scheme
     \<Rightarrow> bool \<times> emulator \<times> 'a process_controller_scheme" where
  "dispatch_unmapped uc address pc =
     (if UC_HOOK_MEM_UNMAPPED \<in> set (uc_hooks uc) then unicorn_hook_unmapped uc address pc
      else (False, uc, pc))"

definition is_block_hook :: "hook \<Rightarrow> bool" where
  "is_block_hook h = (case h of UC_HOOK_BLOCK _ \<Rightarrow> True | UC_HOOK_MEM_UNMAPPED \<Rightarrow> False)"

definition dispatch_block ::
  "emulator \<Rightarrow> int \<Rightarrow> 'a process_controller_scheme
     \<Rightarrow> error option \<times> emulator \<times> 'a process_controller_scheme" where
  "dispatch_block uc address pc =
     (case find is_block_hook (uc_hooks uc) of
        Some (UC_HOOK_BLOCK stop_on_ret_addr) \<Rightarrow>
          unicorn_hook_block uc address (pc, stop_on_ret_addr)
      | _ \<Rightarrow> (None, uc, pc))"

text \<open>
  One round of the run: stop on a stop request or at the end address; fetch the block
  (the unmapped-memory callback may supply the page); call the block callback, whose
  exception ends the run and is raised again by \<open>emu_start\<close>; execute the block. The
  run has no bound of its own, so the model counts rounds: \<open>None\<close> says that the fuel
  ran out, that is, that the run did not end within so many rounds.
\<close>

fun emu_loop ::
  "nat \<Rightarrow> cpu \<Rightarrow> int \<Rightarrow> emulator \<Rightarrow> 'a process_controller_scheme
     \<Rightarrow> (error option \<times> emulator \<times> 'a process_controller_scheme) option" where
  "emu_loop 0 cpu until_addr uc pc = None"
| "emu_loop (Suc k) cpu until_addr uc pc =
     (let a = reg_read uc (engine_pc (uc_mode_of uc)) in
      if uc_stop_request uc \<or> a = until_addr then Some (None, uc, pc)
      else
        (case fetch_check uc a of
           FetchProt \<Rightarrow> Some (Some (UcError UC_ERR_FETCH_PROT), uc, pc)
         | FetchUnmapped \<Rightarrow>
             (case dispatch_unmapped uc a pc of (ok, uc1, pc1) \<Rightarrow>
                if ok then emu_loop k cpu until_addr uc1 pc1
                else Some (Some (UcError UC_ERR_FETCH_UNMAPPED), uc1, pc1))
         | FetchOk \<Rightarrow>
             (case dispatch_block uc a pc of
                (Some e, uc1, pc1) \<Rightarrow> Some (Some e, uc1, pc1)
              | (None, uc1, pc1) \<Rightarrow>
                  if uc_stop_request uc1 then Some (None, uc1, pc1)
                  else
                    (case cpu uc1 of
                       Executed r m \<Rightarrow>
                         emu_loop k cpu until_addr (uc1\<lparr>uc_regs := r, uc_mem := m\<rparr>) pc1
                     | MemFault addr \<Rightarrow>
                         (case dispatch_unmapped uc1 addr pc1 of (ok, uc2, pc2) \<Rightarrow>
                            if ok then emu_loop k cpu until_addr uc2 pc2
                            else Some (Some (UcError UC_ERR_READ_UNMAPPED), uc2, pc2))
                     | CpuFault e \<Rightarrow> Some (Some (UcError e), uc1, pc1)))))"

definition emu_start ::
  "nat \<Rightarrow> cpu \<Rightarrow> emulator \<Rightarrow> int \<Rightarrow> int \<Rightarrow> 'a process_controller_scheme
     \<Rightarrow> (error option \<times> emulator \<times> 'a process_controller_scheme) option" where
  "emu_start fuel cpu uc begin_addr until_addr pc =
     emu_loop fuel cpu until_addr
       (reg_write (uc\<lparr>uc_stop_request := False\<rparr>) (engine_pc (uc_mode_of uc)) begin_addr) pc"

section \<open>\<open>resolve_wrapped_api\<close> (lines 20 to 86)\<close>

text \<open>Lines 62 to 65: the return address the block callback is told to stop on.\<close>

definition stop_condition :: "int option \<Rightarrow> int" where
  "stop_condition expected_ret_addr =
     (case expected_ret_addr of None \<Rightarrow> STACK_MAGIC_RET_ADDR | Some a \<Rightarrow> a)"

text \<open>Lines 47 to 71: the stack, the environment blocks and the two callbacks.\<close>

definition build_environment ::
  "emulator \<Rightarrow> reg \<Rightarrow> reg \<Rightarrow> int
     \<Rightarrow> (emulator \<Rightarrow> 'a process_controller_scheme \<Rightarrow> (error \<times> emulator) + emulator)
     \<Rightarrow> 'a process_controller_scheme \<Rightarrow> int option \<Rightarrow> (error \<times> emulator) + emulator" where
  "build_environment uc sp_register bp_register stack_addr setup_teb process_controller
       expected_ret_addr =
     (let stack_size = 3 * page_size process_controller;
          stack_start = stack_addr + stack_size - page_size process_controller
      in case mem_map uc stack_addr stack_size (UC_PROT_READ OR UC_PROT_WRITE) of
           Inl e \<Rightarrow> Inl (e, uc)
         | Inr uc1 \<Rightarrow>
      (case pointer_size_to_fmt (pointer_size process_controller) of
           Inl e \<Rightarrow> Inl (e, uc1)
         | Inr f \<Rightarrow>
      (case struct_pack f STACK_MAGIC_RET_ADDR of
           Inl e \<Rightarrow> Inl (e, uc1)
         | Inr magic_bytes \<Rightarrow>
      (case mem_write uc1 stack_start magic_bytes of
           Inl e \<Rightarrow> Inl (e, uc1)
         | Inr uc2 \<Rightarrow>
      (let uc3 = reg_write uc2 sp_register stack_start;
           uc4 = reg_write uc3 bp_register stack_start
       in case setup_teb uc4 process_controller of
            Inl x \<Rightarrow> Inl x
          | Inr uc5 \<Rightarrow>
       (let stop_on_ret_addr = stop_condition expected_ret_addr;
            uc6 = hook_add uc5 UC_HOOK_MEM_UNMAPPED;
            uc7 = hook_add uc6 (UC_HOOK_BLOCK stop_on_ret_addr)
        in Inr uc7))))))"

text \<open>
  Lines 44 to 86 once the architecture is chosen: the \<open>try\<close> block and its
  \<open>except UcError\<close>. The result is the returned value or the exception that leaves
  the function, the emulator instance if one was created, and the process controller.
\<close>

definition resolve_with ::
  "nat \<Rightarrow> cpu \<Rightarrow> uc_mode \<Rightarrow> reg \<Rightarrow> reg \<Rightarrow> reg \<Rightarrow> int
     \<Rightarrow> (emulator \<Rightarrow> 'a process_controller_scheme \<Rightarrow> (error \<times> emulator) + emulator)
     \<Rightarrow> int \<Rightarrow> 'a process_controller_scheme \<Rightarrow> int option
     \<Rightarrow> ((error + int option) \<times> emulator option \<times> 'a process_controller_scheme) option" where
  "resolve_with fuel cpu mode pc_register sp_register bp_register stack_addr setup_teb
       wrapper_start_addr process_controller expected_ret_addr =
     (let uc = Uc mode;
          handler = (\<lambda>e uc' pc'.
             if is_UcError e then Some (Inr None, Some uc', pc')
             else Some (Inl e, Some uc', pc'))
      in case build_environment uc sp_register bp_register stack_addr setup_teb
                process_controller expected_ret_addr of
           Inl (e, uc') \<Rightarrow> handler e uc' process_controller
         | Inr uc1 \<Rightarrow>
             (case emu_start fuel cpu uc1 wrapper_start_addr (wrapper_start_addr + 1024)
                     process_controller of
                None \<Rightarrow> None
              | Some (Some e, uc2, pc2) \<Rightarrow> handler e uc2 pc2
              | Some (None, uc2, pc2) \<Rightarrow>
                  Some (Inr (Some (reg_read uc2 pc_register)), Some uc2, pc2)))"

definition unsupported_message :: "string \<Rightarrow> string" where
  "unsupported_message arch =
     ''Architecture '' @ [CHR 0x27] @ arch @ [CHR 0x27] @ '' isn'' @ [CHR 0x27] @ ''t supported''"

definition resolve_wrapped_api ::
  "nat \<Rightarrow> cpu \<Rightarrow> int \<Rightarrow> 'a process_controller_scheme \<Rightarrow> int option
     \<Rightarrow> ((error + int option) \<times> emulator option \<times> 'a process_controller_scheme) option" where
  "resolve_wrapped_api fuel cpu wrapper_start_addr process_controller expected_ret_addr =
     (let arch = architecture process_controller in
      if arch = ''ia32'' then
        resolve_with fuel cpu UC_MODE_32 UC_X86_REG_EIP UC_X86_REG_ESP UC_X86_REG_EBP
          0xff000000 setup_teb_x86 wrapper_start_addr process_controller expected_ret_addr
      else if arch = ''x64'' then
        resolve_with fuel cpu UC_MODE_64 UC_X86_REG_RIP UC_X86_REG_RSP UC_X86_REG_RBP
          0xff00000000000000 setup_teb_x64 wrapper_start_addr process_controller expected_ret_addr
      else Some (Inl (NotImplementedError (unsupported_message arch)), None, process_controller))"

section \<open>Notions of the specification\<close>

text \<open>
  The pointer-sized value the block callback reads at the current stack pointer
  (lines 156 to 159), \<open>None\<close> when the read or the decoding raises.
\<close>

definition return_address_on_stack ::
  "emulator \<Rightarrow> 'a process_controller_scheme \<Rightarrow> int option" where
  "return_address_on_stack uc pc =
     (case snd (hook_registers (architecture pc)) of
        None \<Rightarrow> None
      | Some sp_reg \<Rightarrow>
     (case mem_read uc (reg_read uc sp_reg) (pointer_size pc) of
        Inl e \<Rightarrow> None
      | Inr data \<Rightarrow>
     (case pointer_size_to_fmt (pointer_size pc) of
        Inl e \<Rightarrow> None
      | Inr f \<Rightarrow>
     (case struct_unpack f data of Inl e \<Rightarrow> None | Inr v \<Rightarrow> Some v))))"

text \<open>
  The same read with the register named: the pointer-sized little-endian value at the
  address held in register \<open>r\<close>, \<open>None\<close> when the read or the decoding raises.
\<close>

definition pointer_at :: "emulator \<Rightarrow> reg \<Rightarrow> 'a process_controller_scheme \<Rightarrow> int option" where
  "pointer_at uc r pc =
     (case mem_read uc (reg_read uc r) (pointer_size pc) of
        Inl e \<Rightarrow> None
      | Inr data \<Rightarrow>
     (case pointer_size_to_fmt (pointer_size pc) of
        Inl e \<Rightarrow> None
      | Inr f \<Rightarrow>
     (case struct_unpack f data of Inl e \<Rightarrow> None | Inr v \<Rightarrow> Some v)))"

text \<open>
  The process controller \<open>q\<close> is \<open>p\<close> after further method calls: nothing but the
  record of calls differs, and that record has only grown.
\<close>

definition only_calls_added ::
  "'a process_controller_scheme \<Rightarrow> 'a process_controller_scheme \<Rightarrow> bool" where
  "only_calls_added p q = (\<exists>cs. q = p\<lparr>calls := calls p @ cs\<rparr>)"


text \<open>Whether the page holding address 0 is part of the emulated address space.\<close>

definition null_page_mapped :: "emulator \<Rightarrow> bool" where
  "null_page_mapped uc = (region_at (uc_regions uc) 0 \<noteq> None)"

definition supported_architecture :: "string \<Rightarrow> bool" where
  "supported_architecture arch = (arch = ''ia32'' \<or> arch = ''x64'')"

text \<open>The parts of what \<open>resolve_wrapped_api\<close> answers.\<close>

definition result_value :: "('r \<times> 'e \<times> 'p) option \<Rightarrow> 'r option" where
  "result_value res = map_option fst res"

definition result_calls ::
  "('r \<times> 'e \<times> 'a process_controller_scheme) option \<Rightarrow> pc_call list option" where
  "result_calls res = map_option (\<lambda>x. calls (snd (snd x))) res"

definition result_emulator :: "('r \<times> emulator option \<times> 'p) option \<Rightarrow> emulator option" where
  "result_emulator res = (case res of Some (r, Some uc, p) \<Rightarrow> Some uc | _ \<Rightarrow> None)"

text \<open>Whether the run behind a result ended on a stop request of the block callback.\<close>

definition result_stopped :: "('r \<times> emulator option \<times> 'p) option \<Rightarrow> bool" where
  "result_stopped res =
     (case result_emulator res of Some uc \<Rightarrow> uc_stop_request uc | None \<Rightarrow> False)"

section \<open>Example processes and wrappers\<close>

text \<open>
  A processor that knows two instructions, enough for the examples: \<open>nop\<close> (\<open>90\<close>)
  and \<open>jmp rel32\<close> (\<open>E9\<close>); each is a block of its own.
\<close>

definition le32_at :: "(int \<Rightarrow> byte) \<Rightarrow> int \<Rightarrow> int" where
  "le32_at m a = le_value (map (\<lambda>i. m (a + int i)) [0..<4])"

definition example_cpu :: cpu where
  "example_cpu uc =
     (let pcr = engine_pc (uc_mode_of uc); a = uc_regs uc pcr; opc = uc_mem uc a in
      if opc = 0x90 then Executed ((uc_regs uc)(pcr := a + 1)) (uc_mem uc)
      else if opc = 0xE9 then
        (let rel = le32_at (uc_mem uc) (a + 1);
             srel = (if 2 ^ 31 \<le> rel then rel - 2 ^ 32 else rel)
         in Executed ((uc_regs uc)(pcr := a + 5 + srel)) (uc_mem uc))
      else CpuFault UC_ERR_INSN_INVALID)"

text \<open>
  A 32-bit process: the wrapper at \<open>0x401000\<close> is \<open>jmp 0x70000000\<close>, and
  \<open>0x70000000\<close> is the export \<open>CreateFileW\<close>.
\<close>

definition example_image :: "int \<Rightarrow> int \<Rightarrow> bytes option" where
  "example_image a n =
     (if a = 0x401000 \<and> n = 0x1000
      then Some ([0xE9, 0xFB, 0xEF, 0xBF, 0x6F] @ replicate 4091 0)
      else if a = 0x70000000 \<and> n = 0x1000 then Some (replicate 4096 0xC3)
      else None)"

definition example_pc :: process_controller where
  "example_pc =
     \<lparr>architecture = ''ia32'', page_size = 0x1000, pointer_size = 4,
      memory_image = example_image,
      exported_functions = [0x70000000 \<mapsto> \<lparr>api_name = ''CreateFileW''\<rparr>],
      calls = []\<rparr>"

text \<open>The environment \<open>resolve_wrapped_api\<close> builds for a 32-bit process.\<close>

definition ia32_environment :: "'a process_controller_scheme \<Rightarrow> int option \<Rightarrow> emulator" where
  "ia32_environment pc expected =
     (case build_environment (Uc UC_MODE_32) UC_X86_REG_ESP UC_X86_REG_EBP 0xff000000
             setup_teb_x86 pc expected of
        Inl (e, uc) \<Rightarrow> uc
      | Inr uc \<Rightarrow> uc)"

definition example_env :: "int option \<Rightarrow> emulator" where
  "example_env expected = ia32_environment example_pc expected"

text \<open>The same process as a 64-bit one, and the environment built for it.\<close>

definition example_pc64 :: process_controller where
  "example_pc64 = example_pc\<lparr>architecture := ''x64'', pointer_size := 8\<rparr>"

definition x64_environment :: "'a process_controller_scheme \<Rightarrow> int option \<Rightarrow> emulator" where
  "x64_environment pc expected =
     (case build_environment (Uc UC_MODE_64) UC_X86_REG_RSP UC_X86_REG_RBP 0xff00000000000000
             setup_teb_x64 pc expected of
        Inl (e, uc) \<Rightarrow> uc
      | Inr uc \<Rightarrow> uc)"

text \<open>
  A 32-bit process without exports whose wrapper at \<open>0x401000\<close> is \<open>jmp 0x401400\<close>,
  the end of the window.
\<close>

definition bound_pc :: process_controller where
  "bound_pc =
     \<lparr>architecture = ''ia32'', page_size = 0x1000, pointer_size = 4,
      memory_image =
        (\<lambda>a n. if a = 0x401000 \<and> n = 0x1000
               then Some ([0xE9, 0xFB, 0x03, 0x00, 0x00] @ replicate 4091 0) else None),
      exported_functions = Map.empty,
      calls = []\<rparr>"

definition bound_pc64 :: process_controller where
  "bound_pc64 = bound_pc\<lparr>architecture := ''x64'', pointer_size := 8\<rparr>"


text \<open>A 32-bit process none of whose memory can be read.\<close>

definition unreadable_pc :: process_controller where
  "unreadable_pc =
     \<lparr>architecture = ''ia32'', page_size = 0x1000, pointer_size = 4,
      memory_image = (\<lambda>a n. None),
      exported_functions = [0x70000000 \<mapsto> \<lparr>api_name = ''CreateFileW''\<rparr>],
      calls = []\<rparr>"

definition unreadable_pc64 :: process_controller where
  "unreadable_pc64 = unreadable_pc\<lparr>architecture := ''x64'', pointer_size := 8\<rparr>"

text \<open>
  The example process with the export at \<open>0x70000000\<close> named \<open>ExitProcess\<close>, and
  its environment after the emulated code has moved the stack pointer to the unmapped
  address \<open>0x5000\<close>.
\<close>

definition exit_pc :: process_controller where
  "exit_pc = example_pc\<lparr>exported_functions := [0x70000000 \<mapsto> \<lparr>api_name = ''ExitProcess''\<rparr>]\<rparr>"

definition exit_env :: emulator where
  "exit_env = reg_write (ia32_environment exit_pc None) UC_X86_REG_ESP 0x5000"

text \<open>A process whose first page can be read.\<close>

definition null_page_pc :: process_controller where
  "null_page_pc =
     \<lparr>architecture = ''ia32'', page_size = 0x1000, pointer_size = 4,
      memory_image = (\<lambda>a n. if a = 0 \<and> n = 0x1000 then Some (replicate 4096 0) else None),
      exported_functions = Map.empty,
      calls = []\<rparr>"

text \<open>A process of an architecture the program does not know.\<close>

definition arm_pc :: process_controller where
  "arm_pc =
     \<lparr>architecture = ''arm64'', page_size = 0x1000, pointer_size = 8,
      memory_image = (\<lambda>a n. None),
      exported_functions = [0x70000000 \<mapsto> \<lparr>api_name = ''CreateFileW''\<rparr>],
      calls = []\<rparr>"

section \<open>Facts about the engine operations\<close>

lemma region_at_append:
  "region_at (rs @ [r]) a =
     (case region_at rs a of Some x \<Rightarrow> Some x | None \<Rightarrow> if in_region a r then Some r else None)"
  by (induction rs) (auto simp: region_at_def)

lemma mem_map_Inr:
  assumes "mem_map uc a n p = Inr uc'"
  shows "uc' = uc\<lparr>uc_regions := uc_regions uc @ [(a, n, p)],
                   uc_mem := (\<lambda>x. if a \<le> x \<and> x < a + n then 0 else uc_mem uc x)\<rparr>"
    and "0 < n" and "0 \<le> a" and "a mod 4096 = 0" and "n mod 4096 = 0"
    and "\<not> overlaps (uc_regions uc) a n"
  using assms by (auto simp: mem_map_def split: if_splits)

lemma mem_write_Inr:
  assumes "mem_write uc a data = Inr uc'"
  shows "uc_regions uc' = uc_regions uc" and "uc_regs uc' = uc_regs uc"
    and "uc_hooks uc' = uc_hooks uc" and "uc_stop_request uc' = uc_stop_request uc"
    and "uc_mode_of uc' = uc_mode_of uc"
  using assms by (auto simp: mem_write_def split: if_splits)

lemma mem_read_not_unbound [simp]: "mem_read uc a n \<noteq> Inl (UnboundLocalError name)"
  by (simp add: mem_read_def)

lemma pointer_size_to_fmt_not_unbound [simp]:
  "pointer_size_to_fmt n \<noteq> Inl (UnboundLocalError name)"
  by (simp add: pointer_size_to_fmt_def)

lemma struct_unpack_not_unbound [simp]: "struct_unpack f d \<noteq> Inl (UnboundLocalError name)"
  by (simp add: struct_unpack_def)

subsection \<open>The environment\<close>

lemma length_le_bytes [simp]: "length (le_bytes n v) = n"
  by (induction n arbitrary: v) auto

lemma le_value_le_bytes: "0 \<le> v \<Longrightarrow> v < 256 ^ n \<Longrightarrow> le_value (le_bytes n v) = v"
proof (induction n arbitrary: v)
  case 0
  then show ?case by simp
next
  case (Suc n)
  have "v div 256 < 256 ^ n" using Suc.prems by auto
  moreover have "0 \<le> v div 256" using Suc.prems by simp
  ultimately have "le_value (le_bytes n (v div 256)) = v div 256" using Suc.IH by simp
  moreover have "uint (word_of_int v :: byte) = v mod 256"
    by (simp add: uint_word_of_int)
  ultimately show ?case by simp
qed

lemma prot_rw [simp]: "UC_PROT_READ OR UC_PROT_WRITE = 3"
  by (simp add: UC_PROT_READ_def UC_PROT_WRITE_def)

lemma pointer_size_to_fmt_4_8: "pointer_size_to_fmt 4 = Inr LE_I" "pointer_size_to_fmt 8 = Inr LE_Q"
  by (simp_all add: pointer_size_to_fmt_def)

lemma struct_pack_values: "struct_pack LE_I 0xff100000 = Inr (le_bytes 4 0xff100000)"
  "struct_pack LE_I 0xff200000 = Inr (le_bytes 4 0xff200000)"
  "struct_pack LE_Q 0xff10000000000000 = Inr (le_bytes 8 0xff10000000000000)"
  "struct_pack LE_Q 0xff20000000000000 = Inr (le_bytes 8 0xff20000000000000)"
  "struct_pack LE_I STACK_MAGIC_RET_ADDR = Inr (le_bytes 4 STACK_MAGIC_RET_ADDR)"
  "struct_pack LE_Q STACK_MAGIC_RET_ADDR = Inr (le_bytes 8 STACK_MAGIC_RET_ADDR)"
  by (simp_all add: struct_pack_def fmt_size_def STACK_MAGIC_RET_ADDR_def)


lemma aligned_pos_ge:
  fixes n :: int
  assumes "0 < n" and "n mod 4096 = 0"
  shows "4096 \<le> n"
proof (rule ccontr)
  assume "\<not> 4096 \<le> n"
  with assms(1) have "n mod 4096 = n" by simp
  with assms show False by simp
qed

lemma mem_write_mem:
  assumes "mem_write uc a data = Inr uc'"
  shows "uc_mem uc' x = (if a \<le> x \<and> x < a + int (length data) then data ! nat (x - a) else uc_mem uc x)"
  using assms by (auto simp: mem_write_def split: if_splits)

lemma overlaps_in_region:
  assumes "\<not> overlaps rs a n" and "r \<in> set rs" and "in_region x r"
  shows "\<not> (a \<le> x \<and> x < a + n)"
  using assms by (auto simp: overlaps_def in_region_def list_ex_iff)

lemma setup_teb_x86_steps:
  assumes "setup_teb_x86 uc pi = Inr uc'"
  obtains uc1 uc2 uc3 uc4 where
    "mem_map uc 0xff100000 (page_size pi) 3 = Inr uc1"
    and "mem_map uc1 0xff200000 (page_size pi) 3 = Inr uc2"
    and "mem_write uc2 (0xff100000 + 0x18) (le_bytes 4 0xff100000) = Inr uc3"
    and "mem_write uc3 (0xff100000 + 0x30) (le_bytes 4 0xff200000) = Inr uc4"
    and "uc' = msr_write uc4 0xC0000100 0xff100000"
  using assms
  by (simp add: setup_teb_x86_def Let_def pointer_size_to_fmt_4_8 struct_pack_values split: sum.splits)


lemma setup_teb_x64_steps:
  assumes "setup_teb_x64 uc pi = Inr uc'"
  obtains uc1 uc2 uc3 uc4 where
    "mem_map uc 0xff10000000000000 (page_size pi) 3 = Inr uc1"
    and "mem_map uc1 0xff20000000000000 (page_size pi) 3 = Inr uc2"
    and "mem_write uc2 (0xff10000000000000 + 0x30) (le_bytes 8 0xff10000000000000) = Inr uc3"
    and "mem_write uc3 (0xff10000000000000 + 0x60) (le_bytes 8 0xff20000000000000) = Inr uc4"
    and "uc' = msr_write uc4 0xC0000101 0xff10000000000000"
  using assms
  by (simp add: setup_teb_x64_def Let_def pointer_size_to_fmt_4_8 struct_pack_values split: sum.splits)

text \<open>What both environment-block routines do, seen from outside.\<close>

lemma teb_steps_effect:
  assumes m1: "mem_map uc teb (page_size pi) 3 = Inr uc1"
    and m2: "mem_map uc1 peb (page_size pi) 3 = Inr uc2"
    and w1: "mem_write uc2 (teb + o1) d1 = Inr uc3"
    and w2: "mem_write uc3 (teb + o2) d2 = Inr uc4"
    and r: "uc' = msr_write uc4 msr teb"
    and o: "0 \<le> o1" "o1 + int (length d1) \<le> 4096" "0 \<le> o2" "o2 + int (length d2) \<le> 4096"
  shows "uc_regs uc' = uc_regs uc"
    and "uc_hooks uc' = uc_hooks uc"
    and "uc_stop_request uc' = uc_stop_request uc"
    and "uc_mode_of uc' = uc_mode_of uc"
    and "uc_regions uc' = uc_regions uc @ [(teb, page_size pi, 3), (peb, page_size pi, 3)]"
    and "\<And>r x. r \<in> set (uc_regions uc) \<Longrightarrow> in_region x r \<Longrightarrow> uc_mem uc' x = uc_mem uc x"
proof -
  note a1 = mem_map_Inr [OF m1] and a2 = mem_map_Inr [OF m2]
    and b1 = mem_write_Inr [OF w1] and b2 = mem_write_Inr [OF w2]
  have ps: "4096 \<le> page_size pi" using a1(2,5) by (rule aligned_pos_ge)
  show "uc_regions uc' = uc_regions uc @ [(teb, page_size pi, 3), (peb, page_size pi, 3)]"
    using a1(1) a2(1) b1(1) b2(1) r by (simp add: msr_write_def)
  show "uc_regs uc' = uc_regs uc" "uc_hooks uc' = uc_hooks uc"
    "uc_stop_request uc' = uc_stop_request uc" "uc_mode_of uc' = uc_mode_of uc"
    using a1(1) a2(1) b1 b2 r by (simp_all add: msr_write_def)
  fix r' x
  assume r': "r' \<in> set (uc_regions uc)" and x: "in_region x r'"
  have n1: "\<not> (teb \<le> x \<and> x < teb + page_size pi)"
    using overlaps_in_region [OF a1(6) r' x] .
  have "r' \<in> set (uc_regions uc1)" using a1(1) r' by simp
  from overlaps_in_region [OF a2(6) this x]
  have n2: "\<not> (peb \<le> x \<and> x < peb + page_size pi)" .
  have "uc_mem uc4 x = uc_mem uc3 x"
    using mem_write_mem [OF w2, of x] n1 ps o by auto
  moreover have "uc_mem uc3 x = uc_mem uc2 x"
    using mem_write_mem [OF w1, of x] n1 ps o by auto
  moreover have "uc_mem uc2 x = uc_mem uc x"
    using a1(1) a2(1) n1 n2 by auto
  ultimately show "uc_mem uc' x = uc_mem uc x" using r by (simp add: msr_write_def)
qed

lemma setup_teb_x86_effect:
  assumes "setup_teb_x86 uc pi = Inr uc'"
  shows "uc_regs uc' = uc_regs uc"
    and "uc_hooks uc' = uc_hooks uc"
    and "uc_stop_request uc' = uc_stop_request uc"
    and "uc_mode_of uc' = uc_mode_of uc"
    and "uc_regions uc' = uc_regions uc @ [(0xff100000, page_size pi, 3), (0xff200000, page_size pi, 3)]"
    and "\<And>r x. r \<in> set (uc_regions uc) \<Longrightarrow> in_region x r \<Longrightarrow> uc_mem uc' x = uc_mem uc x"
proof -
  from assms obtain uc1 uc2 uc3 uc4 where s:
    "mem_map uc 0xff100000 (page_size pi) 3 = Inr uc1"
    "mem_map uc1 0xff200000 (page_size pi) 3 = Inr uc2"
    "mem_write uc2 (0xff100000 + 0x18) (le_bytes 4 0xff100000) = Inr uc3"
    "mem_write uc3 (0xff100000 + 0x30) (le_bytes 4 0xff200000) = Inr uc4"
    "uc' = msr_write uc4 0xC0000100 0xff100000"
    by (rule setup_teb_x86_steps)
  note e = teb_steps_effect [OF s, simplified]
  show "uc_regs uc' = uc_regs uc" "uc_hooks uc' = uc_hooks uc"
    "uc_stop_request uc' = uc_stop_request uc" "uc_mode_of uc' = uc_mode_of uc"
    "uc_regions uc' = uc_regions uc @ [(0xff100000, page_size pi, 3), (0xff200000, page_size pi, 3)]"
    "\<And>r x. r \<in> set (uc_regions uc) \<Longrightarrow> in_region x r \<Longrightarrow> uc_mem uc' x = uc_mem uc x"
    by (rule e)+
qed

lemma setup_teb_x64_effect:
  assumes "setup_teb_x64 uc pi = Inr uc'"
  shows "uc_regs uc' = uc_regs uc"
    and "uc_hooks uc' = uc_hooks uc"
    and "uc_stop_request uc' = uc_stop_request uc"
    and "uc_mode_of uc' = uc_mode_of uc"
    and "uc_regions uc' = uc_regions uc @ [(0xff10000000000000, page_size pi, 3), (0xff20000000000000, page_size pi, 3)]"
    and "\<And>r x. r \<in> set (uc_regions uc) \<Longrightarrow> in_region x r \<Longrightarrow> uc_mem uc' x = uc_mem uc x"
proof -
  from assms obtain uc1 uc2 uc3 uc4 where s:
    "mem_map uc 0xff10000000000000 (page_size pi) 3 = Inr uc1"
    "mem_map uc1 0xff20000000000000 (page_size pi) 3 = Inr uc2"
    "mem_write uc2 (0xff10000000000000 + 0x30) (le_bytes 8 0xff10000000000000) = Inr uc3"
    "mem_write uc3 (0xff10000000000000 + 0x60) (le_bytes 8 0xff20000000000000) = Inr uc4"
    "uc' = msr_write uc4 0xC0000101 0xff10000000000000"
    by (rule setup_teb_x64_steps)
  note e = teb_steps_effect [OF s, simplified]
  show "uc_regs uc' = uc_regs uc" "uc_hooks uc' = uc_hooks uc"
    "uc_stop_request uc' = uc_stop_request uc" "uc_mode_of uc' = uc_mode_of uc"
    "uc_regions uc' = uc_regions uc @ [(0xff10000000000000, page_size pi, 3), (0xff20000000000000, page_size pi, 3)]"
    "\<And>r x. r \<in> set (uc_regions uc) \<Longrightarrow> in_region x r \<Longrightarrow> uc_mem uc' x = uc_mem uc x"
    by (rule e)+
qed

lemma struct_pack_magic:
  "struct_pack f STACK_MAGIC_RET_ADDR = Inr (le_bytes (fmt_size f) STACK_MAGIC_RET_ADDR)"
  by (cases f) (simp_all add: struct_pack_values fmt_size_def)

lemma build_environment_steps:
  assumes "build_environment uc sp bp sa teb pc expected = Inr uc'"
  obtains uc1 f uc2 uc5 where
    "mem_map uc sa (3 * page_size pc) 3 = Inr uc1"
    and "pointer_size_to_fmt (pointer_size pc) = Inr f"
    and "mem_write uc1 (sa + 2 * page_size pc) (le_bytes (fmt_size f) STACK_MAGIC_RET_ADDR) = Inr uc2"
    and "teb (reg_write (reg_write uc2 sp (sa + 2 * page_size pc)) bp (sa + 2 * page_size pc)) pc
           = Inr uc5"
    and "uc' = hook_add (hook_add uc5 UC_HOOK_MEM_UNMAPPED) (UC_HOOK_BLOCK (stop_condition expected))"
proof -
  have eq: "sa + 3 * page_size pc - page_size pc = sa + 2 * page_size pc" by simp
  from assms that show thesis
    by (simp add: build_environment_def Let_def struct_pack_magic eq split: sum.splits)
qed


lemma covered_nonpos: "n \<le> 0 \<Longrightarrow> covered k rs a n"
  by (cases k) simp_all

lemma pointer_size_to_fmt_Inr:
  assumes "pointer_size_to_fmt n = Inr f"
  shows "n = int (fmt_size f)" and "fmt_size f = 4 \<or> fmt_size f = 8"
  using assms by (auto simp: pointer_size_to_fmt_def fmt_size_def split: if_splits)

lemma le_value_magic:
  "fmt_size f = 4 \<or> fmt_size f = 8 \<Longrightarrow>
     le_value (le_bytes (fmt_size f) STACK_MAGIC_RET_ADDR) = STACK_MAGIC_RET_ADDR"
  by (rule le_value_le_bytes) (auto simp: STACK_MAGIC_RET_ADDR_def)

lemma build_environment_stack:
  assumes b: "build_environment uc sp bp sa teb pc expected = Inr uc'"
    and t: "\<And>u u'. teb u pc = Inr u' \<Longrightarrow>
              uc_regs u' = uc_regs u \<and> (\<exists>rs. uc_regions u' = uc_regions u @ rs) \<and>
              (\<forall>r x. r \<in> set (uc_regions u) \<longrightarrow> in_region x r \<longrightarrow> uc_mem u' x = uc_mem u x)"
    and fresh: "uc_regions uc = []"
    and ne: "sp \<noteq> bp"
  shows "mem_read uc' (sa + 3 * page_size pc - page_size pc) (pointer_size pc)
           = Inr (le_bytes (nat (pointer_size pc)) STACK_MAGIC_RET_ADDR)"
    and "reg_read uc' sp = sa + 3 * page_size pc - page_size pc"
    and "reg_read uc' bp = sa + 3 * page_size pc - page_size pc"
    and "pointer_size pc = 4 \<or> pointer_size pc = 8"
proof -
  define top where "top = sa + 2 * page_size pc"
  have top: "sa + 3 * page_size pc - page_size pc = top" by (simp add: top_def)
  from b obtain uc1 f uc2 uc5 where
    m: "mem_map uc sa (3 * page_size pc) 3 = Inr uc1"
    and f: "pointer_size_to_fmt (pointer_size pc) = Inr f"
    and w: "mem_write uc1 top (le_bytes (fmt_size f) STACK_MAGIC_RET_ADDR) = Inr uc2"
    and s: "teb (reg_write (reg_write uc2 sp top) bp top) pc = Inr uc5"
    and h: "uc' = hook_add (hook_add uc5 UC_HOOK_MEM_UNMAPPED) (UC_HOOK_BLOCK (stop_condition expected))"
    unfolding top_def by (rule build_environment_steps)
  define uc4 where "uc4 = reg_write (reg_write uc2 sp top) bp top"
  note a = mem_map_Inr [OF m] and c = mem_write_Inr [OF w]
    and g = pointer_size_to_fmt_Inr [OF f]
  have "4096 \<le> 3 * page_size pc" using a(2,5) by (rule aligned_pos_ge)
  then have ps: "8 \<le> page_size pc" by simp
  from g show "pointer_size pc = 4 \<or> pointer_size pc = 8" by auto
  have n: "nat (pointer_size pc) = fmt_size f" using g(1) by simp
  have r4: "uc_regions uc4 = [(sa, 3 * page_size pc, 3)]"
    using a(1) c(1) fresh by (simp add: uc4_def reg_write_def)
  from t [OF s [folded uc4_def]] obtain rs where
    regs5: "uc_regs uc5 = uc_regs uc4"
    and r5: "uc_regions uc5 = uc_regions uc4 @ rs"
    and m5: "\<And>r x. r \<in> set (uc_regions uc4) \<Longrightarrow> in_region x r \<Longrightarrow> uc_mem uc5 x = uc_mem uc4 x"
    by blast
  show "reg_read uc' sp = sa + 3 * page_size pc - page_size pc"
    using h regs5 ne by (simp add: top uc4_def reg_read_def reg_write_def hook_add_def)
  show "reg_read uc' bp = sa + 3 * page_size pc - page_size pc"
    using h regs5 by (simp add: top uc4_def reg_read_def reg_write_def hook_add_def)
  have r': "uc_regions uc' = (sa, 3 * page_size pc, 3) # rs"
    using h r5 r4 by (simp add: hook_add_def)
  have inr: "in_region (top + int i) (sa, 3 * page_size pc, 3)" if "i < fmt_size f" for i
    using that g(2) ps by (auto simp: in_region_def top_def)
  have byte: "uc_mem uc' (top + int i) = le_bytes (fmt_size f) STACK_MAGIC_RET_ADDR ! i"
    if i: "i < fmt_size f" for i
  proof -
    have "uc_mem uc' (top + int i) = uc_mem uc4 (top + int i)"
      using h m5 [OF _ inr [OF i]] r4 by (simp add: hook_add_def)
    also have "\<dots> = uc_mem uc2 (top + int i)"
      by (simp add: uc4_def reg_write_def)
    also have "\<dots> = le_bytes (fmt_size f) STACK_MAGIC_RET_ADDR ! i"
      using mem_write_mem [OF w, of "top + int i"] i by simp
    finally show ?thesis .
  qed
  have cov: "mem_covered uc' top (pointer_size pc)"
  proof -
    have "region_at (uc_regions uc') top = Some (sa, 3 * page_size pc, 3)"
      using inr [of 0] g(2) by (auto simp: r' region_at_def)
    moreover have "pointer_size pc - (sa + 3 * page_size pc - top) \<le> 0"
      using g ps by (auto simp: top_def)
    ultimately show ?thesis
      by (simp add: mem_covered_def r' covered_nonpos)
  qed
  have "map (\<lambda>i. uc_mem uc' (top + int i)) [0..<fmt_size f]
          = le_bytes (fmt_size f) STACK_MAGIC_RET_ADDR"
    by (rule nth_equalityI) (simp_all add: byte)
  with cov g(1) show "mem_read uc' (sa + 3 * page_size pc - page_size pc) (pointer_size pc)
           = Inr (le_bytes (nat (pointer_size pc)) STACK_MAGIC_RET_ADDR)"
    by (simp add: mem_read_def top n)
qed

section \<open>Facts about the emulation run\<close>

text \<open>
  Induction over a run that ends: one case for each way a round of \<open>emu_loop\<close> ends the
  run or goes on.
\<close>

lemma emu_loop_cases [consumes 1, case_names halt prot fetch_failed fetched raised stopped
    executed fault_mapped fault_failed cpu_fault]:
  assumes run: "emu_loop k cpu u uc pc = Some res"
    and halt: "\<And>uc pc.
        uc_stop_request uc \<or> reg_read uc (engine_pc (uc_mode_of uc)) = u \<Longrightarrow>
        P uc pc (None, uc, pc)"
    and prot: "\<And>uc pc.
        fetch_check uc (reg_read uc (engine_pc (uc_mode_of uc))) = FetchProt \<Longrightarrow>
        P uc pc (Some (UcError UC_ERR_FETCH_PROT), uc, pc)"
    and fetch_failed: "\<And>uc pc uc1 pc1.
        fetch_check uc (reg_read uc (engine_pc (uc_mode_of uc))) = FetchUnmapped \<Longrightarrow>
        dispatch_unmapped uc (reg_read uc (engine_pc (uc_mode_of uc))) pc = (False, uc1, pc1) \<Longrightarrow>
        P uc pc (Some (UcError UC_ERR_FETCH_UNMAPPED), uc1, pc1)"
    and fetched: "\<And>uc pc uc1 pc1 res.
        dispatch_unmapped uc (reg_read uc (engine_pc (uc_mode_of uc))) pc = (True, uc1, pc1) \<Longrightarrow>
        P uc1 pc1 res \<Longrightarrow> P uc pc res"
    and raised: "\<And>uc pc e uc1 pc1.
        dispatch_block uc (reg_read uc (engine_pc (uc_mode_of uc))) pc = (Some e, uc1, pc1) \<Longrightarrow>
        P uc pc (Some e, uc1, pc1)"
    and stopped: "\<And>uc pc uc1 pc1.
        dispatch_block uc (reg_read uc (engine_pc (uc_mode_of uc))) pc = (None, uc1, pc1) \<Longrightarrow>
        uc_stop_request uc1 \<Longrightarrow> P uc pc (None, uc1, pc1)"
    and executed: "\<And>uc pc uc1 pc1 rg m res.
        dispatch_block uc (reg_read uc (engine_pc (uc_mode_of uc))) pc = (None, uc1, pc1) \<Longrightarrow>
        P (uc1\<lparr>uc_regs := rg, uc_mem := m\<rparr>) pc1 res \<Longrightarrow> P uc pc res"
    and fault_mapped: "\<And>uc pc uc1 pc1 addr uc2 pc2 res.
        dispatch_block uc (reg_read uc (engine_pc (uc_mode_of uc))) pc = (None, uc1, pc1) \<Longrightarrow>
        dispatch_unmapped uc1 addr pc1 = (True, uc2, pc2) \<Longrightarrow>
        P uc2 pc2 res \<Longrightarrow> P uc pc res"
    and fault_failed: "\<And>uc pc uc1 pc1 addr uc2 pc2.
        dispatch_block uc (reg_read uc (engine_pc (uc_mode_of uc))) pc = (None, uc1, pc1) \<Longrightarrow>
        dispatch_unmapped uc1 addr pc1 = (False, uc2, pc2) \<Longrightarrow>
        P uc pc (Some (UcError UC_ERR_READ_UNMAPPED), uc2, pc2)"
    and cpu_fault: "\<And>uc pc uc1 pc1 e.
        dispatch_block uc (reg_read uc (engine_pc (uc_mode_of uc))) pc = (None, uc1, pc1) \<Longrightarrow>
        P uc pc (Some (UcError e), uc1, pc1)"
  shows "P uc pc res"
  using run
proof (induction k arbitrary: uc pc)
  case 0
  then show ?case by simp
next
  case (Suc k)
  let ?a = "reg_read uc (engine_pc (uc_mode_of uc))"
  show ?case
  proof (cases "uc_stop_request uc \<or> ?a = u")
    case True
    with Suc.prems have "res = (None, uc, pc)" by (auto simp: Let_def)
    with halt [OF True] show ?thesis by simp
  next
    case go: False
    show ?thesis
    proof (cases "fetch_check uc ?a")
      case FetchProt
      with go Suc.prems have "res = (Some (UcError UC_ERR_FETCH_PROT), uc, pc)"
        by (auto simp: Let_def)
      with prot [OF FetchProt] show ?thesis by simp
    next
      case FetchUnmapped
      obtain ok uc1 pc1 where d: "dispatch_unmapped uc ?a pc = (ok, uc1, pc1)"
        by (cases "dispatch_unmapped uc ?a pc") auto
      show ?thesis
      proof (cases ok)
        case True
        with go FetchUnmapped d Suc.prems have r: "emu_loop k cpu u uc1 pc1 = Some res"
          by (auto simp: Let_def)
        from d True have d1: "dispatch_unmapped uc ?a pc = (True, uc1, pc1)" by simp
        show ?thesis using fetched [OF d1 Suc.IH [OF r]] .
      next
        case False
        with go FetchUnmapped d Suc.prems
        have "res = (Some (UcError UC_ERR_FETCH_UNMAPPED), uc1, pc1)"
          by (auto simp: Let_def)
        moreover from d False
        have "dispatch_unmapped uc ?a pc = (False, uc1, pc1)" by simp
        ultimately show ?thesis using fetch_failed [OF FetchUnmapped] by simp
      qed
    next
      case FetchOk
      obtain e uc1 pc1 where d: "dispatch_block uc ?a pc = (e, uc1, pc1)"
        by (cases "dispatch_block uc ?a pc") auto
      show ?thesis
      proof (cases e)
        case (Some err)
        with go FetchOk d Suc.prems have "res = (Some err, uc1, pc1)"
          by (auto simp: Let_def)
        with raised [OF d [unfolded Some]] show ?thesis by simp
      next
        case None
        note d' = d [unfolded None]
        show ?thesis
        proof (cases "uc_stop_request uc1")
          case True
          with go FetchOk d' Suc.prems have "res = (None, uc1, pc1)"
            by (auto simp: Let_def)
          with stopped [OF d' True] show ?thesis by simp
        next
          case ns: False
          show ?thesis
          proof (cases "cpu uc1")
            case (Executed rg m)
            with go FetchOk d' ns Suc.prems
            have r: "emu_loop k cpu u (uc1\<lparr>uc_regs := rg, uc_mem := m\<rparr>) pc1 = Some res"
              by (auto simp: Let_def)
            show ?thesis using executed [OF d' Suc.IH [OF r]] .
          next
            case (MemFault addr)
            obtain ok uc2 pc2 where f: "dispatch_unmapped uc1 addr pc1 = (ok, uc2, pc2)"
              by (cases "dispatch_unmapped uc1 addr pc1") auto
            show ?thesis
            proof (cases ok)
              case True
              with go FetchOk d' ns MemFault f Suc.prems
              have r: "emu_loop k cpu u uc2 pc2 = Some res"
                by (auto simp: Let_def)
              from f True have f1: "dispatch_unmapped uc1 addr pc1 = (True, uc2, pc2)" by simp
              show ?thesis using fault_mapped [OF d' f1 Suc.IH [OF r]] .
            next
              case False
              with go FetchOk d' ns MemFault f Suc.prems
              have "res = (Some (UcError UC_ERR_READ_UNMAPPED), uc2, pc2)"
                by (auto simp: Let_def)
              moreover from f False
              have "dispatch_unmapped uc1 addr pc1 = (False, uc2, pc2)" by simp
              ultimately show ?thesis using fault_failed [OF d'] by simp
            qed
          next
            case (CpuFault ce)
            with go FetchOk d' ns Suc.prems have "res = (Some (UcError ce), uc1, pc1)"
              by (auto simp: Let_def)
            with cpu_fault [OF d'] show ?thesis by simp
          qed
        qed
      qed
    qed
  qed
qed

subsection \<open>What the callbacks leave alone\<close>

lemma only_calls_added_refl [simp]: "only_calls_added p p"
  unfolding only_calls_added_def by (rule exI [of _ "[]"]) simp

lemma only_calls_added_step [simp]: "only_calls_added p (p\<lparr>calls := calls p @ cs\<rparr>)"
  unfolding only_calls_added_def by blast

lemma only_calls_added_trans:
  assumes "only_calls_added p p1" and "only_calls_added p1 p2"
  shows "only_calls_added p p2"
proof -
  from assms obtain cs ds where "p1 = p\<lparr>calls := calls p @ cs\<rparr>"
    and "p2 = p1\<lparr>calls := calls p1 @ ds\<rparr>"
    unfolding only_calls_added_def by blast
  then have "p2 = p\<lparr>calls := calls p @ (cs @ ds)\<rparr>" by simp
  then show ?thesis unfolding only_calls_added_def by blast
qed

lemma unmapped_hook_frame:
  assumes "unicorn_hook_unmapped uc a pc = (ok, uc', pc')"
  shows "uc_mode_of uc' = uc_mode_of uc \<and> uc_hooks uc' = uc_hooks uc \<and>
         uc_stop_request uc' = uc_stop_request uc \<and> only_calls_added pc pc'"
  using assms
  by (auto simp: unicorn_hook_unmapped_def Let_def read_process_memory_def
      split: if_splits sum.splits option.splits
      dest!: mem_map_Inr(1) dest: mem_write_Inr)

lemma block_hook_frame:
  assumes "unicorn_hook_block uc a (pc, stop) = (e, uc', pc')"
  shows "uc_mode_of uc' = uc_mode_of uc \<and> uc_hooks uc' = uc_hooks uc \<and>
         uc_regs uc' = uc_regs uc \<and> only_calls_added pc pc'"
  using assms
  by (auto simp: unicorn_hook_block_def Let_def emu_stop_def enumerate_exported_functions_def
      split: if_splits sum.splits option.splits prod.splits)

lemma dispatch_unmapped_frame:
  assumes "dispatch_unmapped uc a pc = (ok, uc', pc')"
  shows "uc_mode_of uc' = uc_mode_of uc \<and> uc_hooks uc' = uc_hooks uc \<and>
         uc_stop_request uc' = uc_stop_request uc \<and> only_calls_added pc pc'"
proof (cases "UC_HOOK_MEM_UNMAPPED \<in> set (uc_hooks uc)")
  case True
  with assms have "unicorn_hook_unmapped uc a pc = (ok, uc', pc')"
    by (simp add: dispatch_unmapped_def)
  then show ?thesis by (rule unmapped_hook_frame)
next
  case False
  with assms show ?thesis by (simp add: dispatch_unmapped_def)
qed

lemma dispatch_block_frame:
  assumes "dispatch_block uc a pc = (e, uc', pc')"
  shows "uc_mode_of uc' = uc_mode_of uc \<and> uc_hooks uc' = uc_hooks uc \<and>
         uc_regs uc' = uc_regs uc \<and> only_calls_added pc pc'"
proof (cases "find is_block_hook (uc_hooks uc)")
  case None
  with assms show ?thesis by (simp add: dispatch_block_def)
next
  case (Some h)
  show ?thesis
  proof (cases h)
    case UC_HOOK_MEM_UNMAPPED
    with Some assms show ?thesis by (simp add: dispatch_block_def)
  next
    case (UC_HOOK_BLOCK stop)
    with Some assms have "unicorn_hook_block uc a (pc, stop) = (e, uc', pc')"
      by (simp add: dispatch_block_def)
    then show ?thesis by (rule block_hook_frame)
  qed
qed

subsection \<open>What a run leaves alone\<close>

lemma emu_loop_frame:
  assumes "emu_loop k cpu u uc pc = Some res"
  shows "uc_mode_of (fst (snd res)) = uc_mode_of uc \<and>
         uc_hooks (fst (snd res)) = uc_hooks uc \<and>
         only_calls_added pc (snd (snd res))"
  using assms
proof (induction rule: emu_loop_cases)
  case (halt uc pc)
  show ?case by simp
next
  case (prot uc pc)
  show ?case by simp
next
  case (fetch_failed uc pc uc1 pc1)
  from dispatch_unmapped_frame [OF fetch_failed(2)] show ?case by simp
next
  case (fetched uc pc uc1 pc1 res)
  from dispatch_unmapped_frame [OF fetched(1)] fetched(2) show ?case
    by (auto intro: only_calls_added_trans)
next
  case (raised uc pc e uc1 pc1)
  from dispatch_block_frame [OF raised] show ?case by simp
next
  case (stopped uc pc uc1 pc1)
  from dispatch_block_frame [OF stopped(1)] show ?case by simp
next
  case (executed uc pc uc1 pc1 rg m res)
  from dispatch_block_frame [OF executed(1)] executed(2) show ?case
    by (auto intro: only_calls_added_trans)
next
  case (fault_mapped uc pc uc1 pc1 addr uc2 pc2 res)
  from dispatch_block_frame [OF fault_mapped(1)] dispatch_unmapped_frame [OF fault_mapped(2)]
  have "uc_mode_of uc2 = uc_mode_of uc" "uc_hooks uc2 = uc_hooks uc" "only_calls_added pc pc2"
    by (auto intro: only_calls_added_trans)
  with fault_mapped(3) show ?case
    by (auto intro: only_calls_added_trans)
next
  case (fault_failed uc pc uc1 pc1 addr uc2 pc2)
  from dispatch_block_frame [OF fault_failed(1)] dispatch_unmapped_frame [OF fault_failed(2)]
  show ?case by (auto intro: only_calls_added_trans)
next
  case (cpu_fault uc pc uc1 pc1 e)
  from dispatch_block_frame [OF cpu_fault] show ?case by simp
qed

text \<open>A run that ends without an exception ends on a stop request or at the end address.\<close>

lemma emu_loop_clean_exit:
  assumes "emu_loop k cpu u uc pc = Some res"
  shows "fst res = None \<longrightarrow>
         uc_stop_request (fst (snd res)) \<or>
         reg_read (fst (snd res)) (engine_pc (uc_mode_of (fst (snd res)))) = u"
  using assms
  by (induction rule: emu_loop_cases) simp_all

subsection \<open>The environment as the run finds it\<close>

lemma build_environment_shape:
  assumes b: "build_environment uc sp bp sa teb pc expected = Inr uc'"
    and t: "\<And>u u'. teb u pc = Inr u' \<Longrightarrow>
              uc_mode_of u' = uc_mode_of u \<and> uc_hooks u' = uc_hooks u \<and>
              uc_stop_request u' = uc_stop_request u \<and>
              (\<exists>ta pa. uc_regions u' = uc_regions u @ [(ta, page_size pc, 3), (pa, page_size pc, 3)])"
  shows "uc_mode_of uc' = uc_mode_of uc"
    and "uc_hooks uc' = uc_hooks uc @ [UC_HOOK_MEM_UNMAPPED, UC_HOOK_BLOCK (stop_condition expected)]"
    and "uc_stop_request uc' = uc_stop_request uc"
    and "\<exists>ta pa. uc_regions uc' =
           uc_regions uc @ [(sa, 3 * page_size pc, 3), (ta, page_size pc, 3), (pa, page_size pc, 3)]"
proof -
  from b obtain uc1 f uc2 uc5 where
    m: "mem_map uc sa (3 * page_size pc) 3 = Inr uc1"
    and w: "mem_write uc1 (sa + 2 * page_size pc) (le_bytes (fmt_size f) STACK_MAGIC_RET_ADDR) = Inr uc2"
    and s: "teb (reg_write (reg_write uc2 sp (sa + 2 * page_size pc)) bp (sa + 2 * page_size pc)) pc
              = Inr uc5"
    and h: "uc' = hook_add (hook_add uc5 UC_HOOK_MEM_UNMAPPED) (UC_HOOK_BLOCK (stop_condition expected))"
    by (rule build_environment_steps)
  note a = mem_map_Inr(1) [OF m] and c = mem_write_Inr [OF w] and e = t [OF s]
  show "uc_mode_of uc' = uc_mode_of uc"
    using a c e h by (simp add: hook_add_def reg_write_def)
  show "uc_hooks uc' = uc_hooks uc @ [UC_HOOK_MEM_UNMAPPED, UC_HOOK_BLOCK (stop_condition expected)]"
    using a c e h by (simp add: hook_add_def reg_write_def)
  show "uc_stop_request uc' = uc_stop_request uc"
    using a c e h by (simp add: hook_add_def reg_write_def)
  show "\<exists>ta pa. uc_regions uc' =
           uc_regions uc @ [(sa, 3 * page_size pc, 3), (ta, page_size pc, 3), (pa, page_size pc, 3)]"
    using a c e h by (auto simp: hook_add_def reg_write_def)
qed

lemma setup_teb_x86_shape:
  assumes "setup_teb_x86 u pc = Inr u'"
  shows "uc_mode_of u' = uc_mode_of u \<and> uc_hooks u' = uc_hooks u \<and>
         uc_stop_request u' = uc_stop_request u \<and>
         (\<exists>ta pa. uc_regions u' = uc_regions u @ [(ta, page_size pc, 3), (pa, page_size pc, 3)])"
  using setup_teb_x86_effect(2,3,4,5) [OF assms] by simp

lemma setup_teb_x64_shape:
  assumes "setup_teb_x64 u pc = Inr u'"
  shows "uc_mode_of u' = uc_mode_of u \<and> uc_hooks u' = uc_hooks u \<and>
         uc_stop_request u' = uc_stop_request u \<and>
         (\<exists>ta pa. uc_regions u' = uc_regions u @ [(ta, page_size pc, 3), (pa, page_size pc, 3)])"
  using setup_teb_x64_effect(2,3,4,5) [OF assms] by simp

lemmas ia32_environment_shape = build_environment_shape [where teb = setup_teb_x86, OF _ setup_teb_x86_shape]
lemmas x64_environment_shape = build_environment_shape [where teb = setup_teb_x64, OF _ setup_teb_x64_shape]

subsection \<open>The outcomes of \<open>resolve_with\<close>\<close>

lemma resolve_with_build_failed:
  assumes "build_environment (Uc mode) sp bp sa teb pc expected = Inl (e, uc')"
  shows "resolve_with fuel cpu mode pcr sp bp sa teb start pc expected =
           Some (if is_UcError e then Inr None else Inl e, Some uc', pc)"
  using assms by (simp add: resolve_with_def Let_def)

lemma resolve_with_run:
  assumes "build_environment (Uc mode) sp bp sa teb pc expected = Inr uc1"
  shows "resolve_with fuel cpu mode pcr sp bp sa teb start pc expected =
           (case emu_start fuel cpu uc1 start (start + 1024) pc of
              None \<Rightarrow> None
            | Some (Some e, uc2, pc2) \<Rightarrow>
                Some (if is_UcError e then Inr None else Inl e, Some uc2, pc2)
            | Some (None, uc2, pc2) \<Rightarrow> Some (Inr (Some (reg_read uc2 pcr)), Some uc2, pc2))"
  using assms by (simp add: resolve_with_def Let_def split: option.splits prod.splits)

lemma emu_start_frame:
  assumes "emu_start fuel cpu uc b u pc = Some res"
  shows "uc_mode_of (fst (snd res)) = uc_mode_of uc \<and>
         uc_hooks (fst (snd res)) = uc_hooks uc \<and>
         only_calls_added pc (snd (snd res))"
  using emu_loop_frame [OF assms [unfolded emu_start_def]] by (simp add: reg_write_def)

lemma emu_start_clean_exit:
  assumes "emu_start fuel cpu uc b u pc = Some (None, uc2, pc2)" and "\<not> uc_stop_request uc2"
  shows "reg_read uc2 (engine_pc (uc_mode_of uc)) = u"
  using emu_loop_clean_exit [OF assms(1) [unfolded emu_start_def]]
    emu_start_frame [OF assms(1)] assms(2)
  by simp

lemma resolve_with_frame:
  assumes "resolve_with fuel cpu mode pcr sp bp sa teb start pc expected = Some res"
  shows "only_calls_added pc (snd (snd res))"
proof (cases "build_environment (Uc mode) sp bp sa teb pc expected")
  case (Inl x)
  then obtain e uc' where "build_environment (Uc mode) sp bp sa teb pc expected = Inl (e, uc')"
    by (cases x) simp
  from resolve_with_build_failed [OF this] assms show ?thesis by auto
next
  case (Inr uc1)
  from assms resolve_with_run [OF Inr, of fuel cpu pcr start]
  obtain r where r: "emu_start fuel cpu uc1 start (start + 1024) pc = Some r"
    and "snd (snd res) = snd (snd r)"
    by (auto split: option.splits prod.splits)
  with emu_start_frame [OF r] show ?thesis by simp
qed

subsection \<open>Which exceptions can leave the program\<close>

lemma mem_map_Inl: "mem_map uc a n p = Inl e \<Longrightarrow> is_UcError e"
  by (auto simp: mem_map_def is_UcError_def split: if_splits)

lemma mem_write_Inl: "mem_write uc a d = Inl e \<Longrightarrow> is_UcError e"
  by (auto simp: mem_write_def is_UcError_def split: if_splits)

lemma setup_teb_x86_Inl: "setup_teb_x86 u pc = Inl (e, u') \<Longrightarrow> is_UcError e"
  by (auto simp: setup_teb_x86_def Let_def pointer_size_to_fmt_4_8 struct_pack_values
      split: sum.splits dest: mem_map_Inl mem_write_Inl)

lemma setup_teb_x64_Inl: "setup_teb_x64 u pc = Inl (e, u') \<Longrightarrow> is_UcError e"
  by (auto simp: setup_teb_x64_def Let_def pointer_size_to_fmt_4_8 struct_pack_values
      split: sum.splits dest: mem_map_Inl mem_write_Inl)

lemma platform_not_config [simp]:
  "''Platform not supported'' \<noteq> unsupported_message a"
  "unsupported_message a \<noteq> ''Platform not supported''"
  by (simp_all add: unsupported_message_def)

lemma pointer_size_to_fmt_Inl:
  "pointer_size_to_fmt n = Inl e \<Longrightarrow> e = NotImplementedError ''Platform not supported''"
  by (auto simp: pointer_size_to_fmt_def split: if_splits)

lemma build_environment_Inl:
  assumes "build_environment uc sp bp sa teb pc expected = Inl (e, uc')"
    and "\<And>u e u'. teb u pc = Inl (e, u') \<Longrightarrow> is_UcError e"
  shows "is_UcError e \<or>
         (e = NotImplementedError ''Platform not supported'' \<and>
          pointer_size pc \<noteq> 4 \<and> pointer_size pc \<noteq> 8)"
  using assms
  by (auto simp: build_environment_def Let_def struct_pack_magic pointer_size_to_fmt_def
      split: sum.splits if_splits dest: mem_map_Inl mem_write_Inl)

lemma block_hook_error:
  assumes "unicorn_hook_block uc a (pc, stop) = (Some e, uc', pc')"
  shows "e \<noteq> NotImplementedError (unsupported_message arch)"
  using assms
  by (auto simp: unicorn_hook_block_def Let_def enumerate_exported_functions_def
        mem_read_def struct_unpack_def
      split: prod.splits option.splits sum.splits if_splits
      dest!: pointer_size_to_fmt_Inl)

lemma dispatch_block_error:
  assumes "dispatch_block uc a pc = (Some e, uc', pc')"
  shows "e \<noteq> NotImplementedError (unsupported_message arch)"
proof (cases "find is_block_hook (uc_hooks uc)")
  case None
  with assms show ?thesis by (simp add: dispatch_block_def)
next
  case (Some h)
  show ?thesis
  proof (cases h)
    case UC_HOOK_MEM_UNMAPPED
    with Some assms show ?thesis by (simp add: dispatch_block_def)
  next
    case (UC_HOOK_BLOCK stop)
    with Some assms have "unicorn_hook_block uc a (pc, stop) = (Some e, uc', pc')"
      by (simp add: dispatch_block_def)
    then show ?thesis by (rule block_hook_error)
  qed
qed

lemma emu_loop_error:
  assumes "emu_loop k cpu u uc pc = Some res"
  shows "fst res \<noteq> Some (NotImplementedError (unsupported_message arch))"
  using assms
proof (induction rule: emu_loop_cases)
  case (raised uc pc e uc1 pc1)
  from dispatch_block_error [OF this] show ?case by simp
qed simp_all

lemma resolve_with_not_config_error:
  assumes "resolve_with fuel cpu mode pcr sp bp sa teb start pc expected = Some res"
    and t: "\<And>u e u'. teb u pc = Inl (e, u') \<Longrightarrow> is_UcError e"
  shows "fst (snd res) \<noteq> None \<and> fst res \<noteq> Inl (NotImplementedError (unsupported_message arch))
         \<and> (\<forall>e. fst res \<noteq> Inl (UcError e))"
proof (cases "build_environment (Uc mode) sp bp sa teb pc expected")
  case (Inl x)
  then obtain e uc' where b: "build_environment (Uc mode) sp bp sa teb pc expected = Inl (e, uc')"
    by (cases x) simp
  from build_environment_Inl [OF b t] resolve_with_build_failed [OF b, of fuel cpu pcr start] assms(1)
  show ?thesis by (auto simp: is_UcError_def)
next
  case (Inr uc1)
  from assms(1) resolve_with_run [OF Inr, of fuel cpu pcr start]
  obtain r where r: "emu_start fuel cpu uc1 start (start + 1024) pc = Some r"
    and res: "res = (case fst r of
                 Some e \<Rightarrow> (if is_UcError e then Inr None else Inl e)
               | None \<Rightarrow> Inr (Some (reg_read (fst (snd r)) pcr)), Some (fst (snd r)), snd (snd r))"
    by (auto split: option.splits prod.splits)
  from emu_loop_error [OF r [unfolded emu_start_def], of arch] res
  show ?thesis by (auto simp: is_UcError_def split: option.splits)
qed

lemma resolve_ia32_outcome:
  assumes "resolve_with fuel cpu mode pcr sp bp sa setup_teb_x86 start pc expected = Some res"
  shows "fst (snd res) \<noteq> None \<and> fst res \<noteq> Inl (NotImplementedError (unsupported_message arch))
         \<and> (\<forall>e. fst res \<noteq> Inl (UcError e))"
  using assms by (rule resolve_with_not_config_error) (erule setup_teb_x86_Inl)

lemma resolve_x64_outcome:
  assumes "resolve_with fuel cpu mode pcr sp bp sa setup_teb_x64 start pc expected = Some res"
  shows "fst (snd res) \<noteq> None \<and> fst res \<noteq> Inl (NotImplementedError (unsupported_message arch))
         \<and> (\<forall>e. fst res \<noteq> Inl (UcError e))"
  using assms by (rule resolve_with_not_config_error) (erule setup_teb_x64_Inl)

lemma resolve_supported_outcome:
  assumes "supported_architecture (architecture pc)"
    and "resolve_wrapped_api fuel cpu start pc expected = Some res"
  shows "fst (snd res) \<noteq> None \<and> fst res \<noteq> Inl (NotImplementedError (unsupported_message arch))
         \<and> (\<forall>e. fst res \<noteq> Inl (UcError e))"
proof (cases "architecture pc = ''ia32''")
  case True
  with assms(2) have "resolve_with fuel cpu UC_MODE_32 UC_X86_REG_EIP UC_X86_REG_ESP
      UC_X86_REG_EBP 0xff000000 setup_teb_x86 start pc expected = Some res"
    by (simp add: resolve_wrapped_api_def Let_def)
  then show ?thesis by (rule resolve_ia32_outcome)
next
  case False
  with assms have "resolve_with fuel cpu UC_MODE_64 UC_X86_REG_RIP UC_X86_REG_RSP
      UC_X86_REG_RBP 0xff00000000000000 setup_teb_x64 start pc expected = Some res"
    by (simp add: resolve_wrapped_api_def supported_architecture_def Let_def)
  then show ?thesis by (rule resolve_x64_outcome)
qed

subsection \<open>A process that cannot be read\<close>

lemma fetch_check_not_executable:
  assumes "\<forall>r \<in> set (uc_regions uc). snd (snd r) = 3"
  shows "fetch_check uc a \<noteq> FetchOk"
proof (cases "region_at (uc_regions uc) a")
  case None
  then show ?thesis by (simp add: fetch_check_def)
next
  case (Some r)
  then have "r \<in> set (uc_regions uc)"
    by (auto simp: region_at_def find_Some_iff)
  with assms have "snd (snd r) = 3" by blast
  with Some show ?thesis
    by (cases r) (simp add: fetch_check_def UC_PROT_EXEC_def)
qed

lemma unmapped_hook_unreadable:
  assumes "\<forall>a n. memory_image pc a n = None"
  shows "fst (unicorn_hook_unmapped uc a pc) = False"
  using assms
  by (simp add: unicorn_hook_unmapped_def Let_def read_process_memory_def)

lemma dispatch_unmapped_unreadable:
  assumes "\<forall>a n. memory_image pc a n = None"
  shows "fst (dispatch_unmapped uc a pc) = False"
  using unmapped_hook_unreadable [OF assms] by (simp add: dispatch_unmapped_def)

lemma emu_loop_unreadable:
  assumes "\<forall>r \<in> set (uc_regions uc). snd (snd r) = 3"
    and "\<forall>a n. memory_image pc a n = None"
    and "\<not> uc_stop_request uc"
    and "reg_read uc (engine_pc (uc_mode_of uc)) \<noteq> u"
  shows "\<exists>e uc2 pc2. emu_loop (Suc k) cpu u uc pc = Some (Some (UcError e), uc2, pc2)"
proof -
  let ?a = "reg_read uc (engine_pc (uc_mode_of uc))"
  from fetch_check_not_executable [OF assms(1), of ?a]
  consider "fetch_check uc ?a = FetchProt" | "fetch_check uc ?a = FetchUnmapped"
    by (cases "fetch_check uc ?a") auto
  then show ?thesis
  proof cases
    case 1
    with assms(3,4) show ?thesis by (simp add: Let_def)
  next
    case 2
    obtain ok uc1 pc1 where d: "dispatch_unmapped uc ?a pc = (ok, uc1, pc1)"
      by (cases "dispatch_unmapped uc ?a pc") auto
    with dispatch_unmapped_unreadable [OF assms(2), of uc ?a] have "\<not> ok" by simp
    with 2 d assms(3,4) show ?thesis by (simp add: Let_def)
  qed
qed

lemma resolve_with_unreadable:
  assumes b: "build_environment (Uc mode) sp bp sa teb pc expected = Inr uc1"
    and t: "\<And>u u'. teb u pc = Inr u' \<Longrightarrow>
              uc_mode_of u' = uc_mode_of u \<and> uc_hooks u' = uc_hooks u \<and>
              uc_stop_request u' = uc_stop_request u \<and>
              (\<exists>ta pa. uc_regions u' = uc_regions u @ [(ta, page_size pc, 3), (pa, page_size pc, 3)])"
    and m: "\<forall>a n. memory_image pc a n = None"
  shows "\<exists>uc2 pc2. resolve_with (Suc k) cpu mode pcr sp bp sa teb start pc expected
           = Some (Inr None, Some uc2, pc2)"
proof -
  define uc0 where "uc0 = reg_write (uc1\<lparr>uc_stop_request := False\<rparr>) (engine_pc (uc_mode_of uc1)) start"
  from build_environment_shape(4) [OF b t] have "\<forall>r \<in> set (uc_regions uc1). snd (snd r) = 3"
    by (auto simp: Uc_def)
  then have 1: "\<forall>r \<in> set (uc_regions uc0). snd (snd r) = 3"
    by (simp add: uc0_def reg_write_def)
  have 2: "\<not> uc_stop_request uc0" by (simp add: uc0_def reg_write_def)
  have 3: "reg_read uc0 (engine_pc (uc_mode_of uc0)) \<noteq> start + 1024"
    by (simp add: uc0_def reg_write_def reg_read_def)
  from emu_loop_unreadable [OF 1 m 2 3, of k cpu]
  obtain e uc2 pc2 where "emu_start (Suc k) cpu uc1 start (start + 1024) pc
      = Some (Some (UcError e), uc2, pc2)"
    unfolding emu_start_def uc0_def by blast
  with resolve_with_run [OF b, of "Suc k" cpu pcr start] show ?thesis
    by (simp add: is_UcError_def)
qed

lemma resolve_unreadable:
  assumes s: "supported_architecture (architecture pc)"
    and p: "pointer_size pc = 4 \<or> pointer_size pc = 8"
    and m: "\<forall>a n. memory_image pc a n = None"
  shows "result_value (resolve_wrapped_api (Suc k) cpu start pc expected) = Some (Inr None)"
proof -
  have main: "result_value (resolve_with (Suc k) cpu mode pcr sp bp sa teb start pc expected)
                = Some (Inr None)"
    if t1: "\<And>u e u'. teb u pc = Inl (e, u') \<Longrightarrow> is_UcError e"
      and t2: "\<And>u u'. teb u pc = Inr u' \<Longrightarrow>
              uc_mode_of u' = uc_mode_of u \<and> uc_hooks u' = uc_hooks u \<and>
              uc_stop_request u' = uc_stop_request u \<and>
              (\<exists>ta pa. uc_regions u' = uc_regions u @ [(ta, page_size pc, 3), (pa, page_size pc, 3)])"
    for mode pcr sp bp sa and teb :: "emulator \<Rightarrow> 'a process_controller_scheme \<Rightarrow> (error \<times> emulator) + emulator"
  proof (cases "build_environment (Uc mode) sp bp sa teb pc expected")
    case (Inl x)
    then obtain e uc' where b: "build_environment (Uc mode) sp bp sa teb pc expected = Inl (e, uc')"
      by (cases x) simp
    from build_environment_Inl [OF b t1] p have "is_UcError e" by auto
    with resolve_with_build_failed [OF b, of "Suc k" cpu pcr start] show ?thesis
      by (simp add: result_value_def)
  next
    case (Inr uc1)
    from resolve_with_unreadable [OF Inr t2 m, of k cpu pcr start] show ?thesis
      by (auto simp: result_value_def)
  qed
  show ?thesis
  proof (cases "architecture pc = ''ia32''")
    case True
    with main [of setup_teb_x86, OF setup_teb_x86_Inl setup_teb_x86_shape] show ?thesis
      by (simp add: resolve_wrapped_api_def Let_def)
  next
    case False
    with s main [of setup_teb_x64, OF setup_teb_x64_Inl setup_teb_x64_shape] show ?thesis
      by (simp add: resolve_wrapped_api_def supported_architecture_def Let_def)
  qed
qed

subsection \<open>Two process controllers that answer alike\<close>










section \<open>The termination oracle\<close>

text \<open>
  C1 (as amended). For every invocation of the basic-block callback on a run not yet
  stopped, the callback requests the stop if and only if the reached block address is a
  known export, the read of the pointer-sized return address at the current stack pointer
  (\<open>ESP\<close> for \<open>ia32\<close>, \<open>RSP\<close> for \<open>x64\<close>) succeeds, and that return address
  equals the stop address bound at installation, or equals the sentinel
  \<open>STACK_MAGIC_RET_ADDR\<close> (also when an expected return address was supplied), or the
  export's name is in the fixed non-returning set. When the read fails the callback
  raises and requests no stop, also at an export of the non-returning set.
\<close>

theorem block_hook_halts_iff:
  assumes "\<not> uc_stop_request uc"
  shows "uc_stop_request (fst (snd (unicorn_hook_block uc address (pc, stop_condition expected))))
         \<longleftrightarrow>
           (\<exists>export ret_addr.
              exported_functions pc address = Some export \<and>
              (architecture pc = ''ia32'' \<and> pointer_at uc UC_X86_REG_ESP pc = Some ret_addr \<or>
               architecture pc = ''x64'' \<and> pointer_at uc UC_X86_REG_RSP pc = Some ret_addr) \<and>
              (ret_addr = stop_condition expected \<or> ret_addr = STACK_MAGIC_RET_ADDR \<or>
               is_no_return_api (api_name export)))"
  using assms
  by (auto simp: unicorn_hook_block_def pointer_at_def hook_registers_def
        enumerate_exported_functions_def emu_stop_def Let_def
      split: prod.splits option.splits sum.splits if_splits)

theorem block_hook_halts_iff_witness:
  "\<not> uc_stop_request (example_env None)
   \<and> exported_functions example_pc 0x70000000 = Some \<lparr>api_name = ''CreateFileW''\<rparr>
   \<and> architecture example_pc = ''ia32''
   \<and> pointer_at (example_env None) UC_X86_REG_ESP example_pc = Some (stop_condition None)
   \<and> uc_stop_request
        (fst (snd (unicorn_hook_block (example_env None) 0x70000000
                     (example_pc, stop_condition None))))"
proof -
  have h2: "\<not> uc_stop_request (example_env None)"
    by code_simp
  have h3: "pointer_at (example_env None) UC_X86_REG_ESP example_pc = Some (stop_condition None)"
    by code_simp
  have h4: "exported_functions example_pc 0x70000000 = Some \<lparr>api_name = ''CreateFileW''\<rparr>"
    by (simp add: example_pc_def)
  have h5: "architecture example_pc = ''ia32''"
    by (simp add: example_pc_def)
  from block_hook_halts_iff [OF h2, of "0x70000000" example_pc None] h3 h4 h5
  have "uc_stop_request
        (fst (snd (unicorn_hook_block (example_env None) 0x70000000
                     (example_pc, stop_condition None))))"
    by blast
  with h2 h3 h4 h5 show ?thesis by blast
qed

text \<open>
  The claim as stated fails in both directions. With an expected return address of
  \<open>0x401005\<close> and the sentinel on the stack, the callback stops the run at an export
  that is not in the non-returning set, although the return address differs from the
  active stop condition. And at the export \<open>ExitProcess\<close>, which is in the
  non-returning set, with the stack pointer at unmapped memory, the read of line 157
  raises and the callback requests no stop.
\<close>

theorem block_hook_sentinel_counterexample:
  "uc_stop_request
     (fst (snd (unicorn_hook_block (example_env (Some 0x401005)) 0x70000000
                  (example_pc, stop_condition (Some 0x401005)))))
   \<and> \<not> uc_stop_request (example_env (Some 0x401005))
   \<and> exported_functions example_pc 0x70000000 = Some \<lparr>api_name = ''CreateFileW''\<rparr>
   \<and> pointer_at (example_env (Some 0x401005)) UC_X86_REG_ESP example_pc = Some 0xdeadbeef
   \<and> stop_condition (Some 0x401005) \<noteq> 0xdeadbeef
   \<and> \<not> is_no_return_api ''CreateFileW''
   \<and> exported_functions exit_pc 0x70000000 = Some \<lparr>api_name = ''ExitProcess''\<rparr>
   \<and> is_no_return_api ''ExitProcess''
   \<and> \<not> uc_stop_request exit_env
   \<and> fst (unicorn_hook_block exit_env 0x70000000 (exit_pc, stop_condition None))
       = Some (UcError UC_ERR_READ_UNMAPPED)
   \<and> \<not> uc_stop_request
         (fst (snd (unicorn_hook_block exit_env 0x70000000 (exit_pc, stop_condition None))))"
proof -
  have "uc_stop_request
     (fst (snd (unicorn_hook_block (example_env (Some 0x401005)) 0x70000000
                  (example_pc, stop_condition (Some 0x401005)))))"
    by code_simp
  moreover have "\<not> uc_stop_request (example_env (Some 0x401005))"
    by code_simp
  moreover have "exported_functions example_pc 0x70000000 = Some \<lparr>api_name = ''CreateFileW''\<rparr>"
    by (simp add: example_pc_def)
  moreover have
    "pointer_at (example_env (Some 0x401005)) UC_X86_REG_ESP example_pc = Some 0xdeadbeef"
    by code_simp
  moreover have "stop_condition (Some 0x401005) \<noteq> 0xdeadbeef"
    by (simp add: stop_condition_def)
  moreover have "\<not> is_no_return_api ''CreateFileW''"
    by (simp add: is_no_return_api_def)
  moreover have "exported_functions exit_pc 0x70000000 = Some \<lparr>api_name = ''ExitProcess''\<rparr>"
    by (simp add: exit_pc_def)
  moreover have "is_no_return_api ''ExitProcess''"
    by (simp add: is_no_return_api_def)
  moreover have "\<not> uc_stop_request exit_env"
    by code_simp
  moreover have "fst (unicorn_hook_block exit_env 0x70000000 (exit_pc, stop_condition None))
       = Some (UcError UC_ERR_READ_UNMAPPED)"
    by code_simp
  moreover have "\<not> uc_stop_request
         (fst (snd (unicorn_hook_block exit_env 0x70000000 (exit_pc, stop_condition None))))"
    by code_simp
  ultimately show ?thesis by blast
qed

section \<open>The memory bridge\<close>

text \<open>
  C5 (as amended). For the null faulting address the unmapped-memory callback reports
  failure and leaves the emulated address space as it was. The guard is on the faulting
  address only: for any invocation that adds the page holding address 0, the faulting
  address is a non-null address of the first page (its page-aligned address is 0) and the
  real process answered the read of that page.
\<close>

theorem unmapped_hook_null_page:
  "unicorn_hook_unmapped uc 0 pc = (False, uc, pc) \<and>
   (\<not> null_page_mapped uc \<and>
    null_page_mapped (fst (snd (unicorn_hook_unmapped uc address pc)))
      \<longrightarrow> address \<noteq> 0 \<and> address - (address AND (page_size pc - 1)) = 0
          \<and> memory_image pc 0 (page_size pc) \<noteq> None)"
proof (intro conjI impI)
  show "unicorn_hook_unmapped uc 0 pc = (False, uc, pc)"
    by (simp add: unicorn_hook_unmapped_def)
next
  assume a: "\<not> null_page_mapped uc \<and>
             null_page_mapped (fst (snd (unicorn_hook_unmapped uc address pc)))"
  then have nz: "address \<noteq> 0"
    by (auto simp: unicorn_hook_unmapped_def)
  define al where "al = address - (address AND (page_size pc - 1))"
  from a nz obtain data uc1 where
    rd: "memory_image pc al (page_size pc) = Some data"
    and mp: "mem_map uc al (int (length data)) UC_PROT_ALL = Inr uc1"
    and reg: "null_page_mapped uc1"
    by (auto simp: unicorn_hook_unmapped_def read_process_memory_def Let_def al_def
          null_page_mapped_def
        split: option.splits sum.splits dest: mem_write_Inr(1))
  from mem_map_Inr(1,3) [OF mp] reg a have "al = 0"
    by (auto simp: null_page_mapped_def region_at_append in_region_def
        split: option.splits if_splits)
  with rd nz show "address \<noteq> 0" "address - (address AND (page_size pc - 1)) = 0"
     "memory_image pc 0 (page_size pc) \<noteq> None"
    by (auto simp: al_def)
qed

theorem unmapped_hook_null_page_witness:
  "\<not> null_page_mapped (ia32_environment null_page_pc None)
   \<and> null_page_mapped
        (fst (snd (unicorn_hook_unmapped (ia32_environment null_page_pc None) 0x10 null_page_pc)))
   \<and> (0x10 :: int) \<noteq> 0
   \<and> 0x10 - (0x10 AND (page_size null_page_pc - 1)) = 0
   \<and> memory_image null_page_pc 0 (page_size null_page_pc) \<noteq> None"
proof -
  have h1: "\<not> null_page_mapped (ia32_environment null_page_pc None)"
    by code_simp
  have h2: "null_page_mapped
        (fst (snd (unicorn_hook_unmapped (ia32_environment null_page_pc None) 0x10 null_page_pc)))"
    by code_simp
  from unmapped_hook_null_page
         [of "ia32_environment null_page_pc None" null_page_pc "0x10", THEN conjunct2] h1 h2
  show ?thesis by blast
qed

text \<open>
  The claim as stated fails: a fault at address \<open>0x10\<close>, in a process whose first page
  can be read, makes the callback map the page at 0 and report success.
\<close>

theorem unmapped_hook_null_page_counterexample:
  "fst (unicorn_hook_unmapped (ia32_environment null_page_pc None) 0x10 null_page_pc)
   \<and> \<not> null_page_mapped (ia32_environment null_page_pc None)
   \<and> region_at
        (uc_regions
           (fst (snd (unicorn_hook_unmapped (ia32_environment null_page_pc None) 0x10
                        null_page_pc)))) 0
       = Some (0, 4096, UC_PROT_ALL)"
proof -
  have "fst (unicorn_hook_unmapped (ia32_environment null_page_pc None) 0x10 null_page_pc)"
    by code_simp
  moreover have "\<not> null_page_mapped (ia32_environment null_page_pc None)"
    by code_simp
  moreover have "region_at
        (uc_regions
           (fst (snd (unicorn_hook_unmapped (ia32_environment null_page_pc None) 0x10
                        null_page_pc)))) 0
       = Some (0, 4096, UC_PROT_ALL)"
    by code_simp
  ultimately show ?thesis by blast
qed

section \<open>The export snapshot\<close>

text \<open>
  C6 (as amended). The export mapping is not obtained once at hook-install time: every
  invocation of the basic-block callback requests it from the process-control service
  anew, exactly once per invocation, whatever the callback goes on to do.
\<close>

theorem block_hook_requests_exports:
  "calls (snd (snd (unicorn_hook_block uc address (pc, stop))))
     = calls pc @ [EnumerateExportedFunctions]"
  by (auto simp: unicorn_hook_block_def enumerate_exported_functions_def Let_def
      split: prod.splits option.splits sum.splits)

text \<open>
  The claim as stated fails: resolving the example wrapper enters two blocks, and the
  service is asked for the export mapping twice, both times during the run.
\<close>

theorem exports_requested_twice_counterexample:
  "result_calls (resolve_wrapped_api 4 example_cpu 0x401000 example_pc None)
     = Some [ReadProcessMemory 0x401000 0x1000, EnumerateExportedFunctions,
             ReadProcessMemory 0x70000000 0x1000, EnumerateExportedFunctions]"
  by code_simp

section \<open>Register selection of the block callback\<close>

lemma hook_registers_supported:
  "supported_architecture arch \<Longrightarrow> \<exists>pcr spr. hook_registers arch = (Some pcr, Some spr)"
  by (auto simp: supported_architecture_def hook_registers_def)

lemma hook_registers_unsupported:
  "\<not> supported_architecture arch \<Longrightarrow> hook_registers arch = (None, None)"
  by (auto simp: supported_architecture_def hook_registers_def)

lemma block_hook_bound_registers:
  assumes "hook_registers (architecture pc) = (Some pcr, Some spr)"
  shows "fst (unicorn_hook_block uc address (pc, stop)) \<noteq> Some (UnboundLocalError name)"
  using assms
  by (auto simp: unicorn_hook_block_def enumerate_exported_functions_def Let_def
      split: option.splits sum.splits)

text \<open>
  C10 (as amended). For the two supported tags the register selection of the block
  callback binds both register variables, and the callback never fails on an unbound
  one. For any other tag both stay unbound; the callback then fails on the unbound
  stack-pointer variable exactly when the reached block is a known export, and returns
  without reading it otherwise. That state is unreachable: for such a tag
  \<open>resolve_wrapped_api\<close> raises before creating the emulator and installing the
  callback, and makes no request to the process-control service.
\<close>

theorem block_hook_registers:
  "(supported_architecture (architecture pc) \<longrightarrow>
      (\<exists>pcr spr. hook_registers (architecture pc) = (Some pcr, Some spr)) \<and>
      (\<forall>name. fst (unicorn_hook_block uc address (pc, stop)) \<noteq> Some (UnboundLocalError name))) \<and>
   (\<not> supported_architecture (architecture pc) \<longrightarrow>
      hook_registers (architecture pc) = (None, None) \<and>
      (fst (unicorn_hook_block uc address (pc, stop)) = Some (UnboundLocalError ''sp_register'')
         \<longleftrightarrow> address \<in> dom (exported_functions pc)) \<and>
      resolve_wrapped_api fuel cpu start pc expected =
        Some (Inl (NotImplementedError (unsupported_message (architecture pc))), None, pc))"
proof (intro conjI impI allI)
  assume s: "supported_architecture (architecture pc)"
  show "\<exists>pcr spr. hook_registers (architecture pc) = (Some pcr, Some spr)"
    using hook_registers_supported [OF s] .
  fix name
  show "fst (unicorn_hook_block uc address (pc, stop)) \<noteq> Some (UnboundLocalError name)"
    using hook_registers_supported [OF s] block_hook_bound_registers by blast
next
  assume u: "\<not> supported_architecture (architecture pc)"
  show "hook_registers (architecture pc) = (None, None)"
    using hook_registers_unsupported [OF u] .
  show "fst (unicorn_hook_block uc address (pc, stop)) = Some (UnboundLocalError ''sp_register'')
         \<longleftrightarrow> address \<in> dom (exported_functions pc)"
    by (auto simp: unicorn_hook_block_def hook_registers_unsupported [OF u]
          enumerate_exported_functions_def Let_def
        split: option.splits)
  from u show "resolve_wrapped_api fuel cpu start pc expected =
        Some (Inl (NotImplementedError (unsupported_message (architecture pc))), None, pc)"
    by (simp add: supported_architecture_def resolve_wrapped_api_def Let_def)
qed

theorem block_hook_registers_witness:
  "supported_architecture (architecture example_pc)
   \<and> fst (unicorn_hook_block (example_env None) 0x70000000 (example_pc, stop_condition None))
       \<noteq> Some (UnboundLocalError ''sp_register'')
   \<and> \<not> supported_architecture (architecture arm_pc)
   \<and> 0x70000000 \<in> dom (exported_functions arm_pc)
   \<and> fst (unicorn_hook_block (Uc UC_MODE_64) 0x70000000 (arm_pc, stop_condition None))
       = Some (UnboundLocalError ''sp_register'')
   \<and> resolve_wrapped_api 4 example_cpu 0x401000 arm_pc None
       = Some (Inl (NotImplementedError (unsupported_message ''arm64'')), None, arm_pc)"
proof -
  have s: "supported_architecture (architecture example_pc)"
    by (simp add: supported_architecture_def example_pc_def)
  have u: "\<not> supported_architecture (architecture arm_pc)"
    by (simp add: supported_architecture_def arm_pc_def)
  have d: "0x70000000 \<in> dom (exported_functions arm_pc)"
    by (simp add: arm_pc_def)
  have a: "architecture arm_pc = ''arm64''"
    by (simp add: arm_pc_def)
  from block_hook_registers
         [of example_pc "example_env None" "0x70000000" "stop_condition None"] s
  have 1: "fst (unicorn_hook_block (example_env None) 0x70000000 (example_pc, stop_condition None))
       \<noteq> Some (UnboundLocalError ''sp_register'')"
    by blast
  from block_hook_registers
         [of arm_pc "Uc UC_MODE_64" "0x70000000" "stop_condition None" 4 example_cpu
             "0x401000" None] u d a
  have 2: "fst (unicorn_hook_block (Uc UC_MODE_64) 0x70000000 (arm_pc, stop_condition None))
       = Some (UnboundLocalError ''sp_register'')"
    and 3: "resolve_wrapped_api 4 example_cpu 0x401000 arm_pc None
       = Some (Inl (NotImplementedError (unsupported_message ''arm64'')), None, arm_pc)"
    by auto
  from s u d 1 2 3 show ?thesis by blast
qed

text \<open>
  The claim as stated fails: for the tag \<open>arm64\<close> the callback, called at an address
  that is no export, returns without failing.
\<close>

theorem block_hook_unsupported_counterexample:
  "\<not> supported_architecture (architecture arm_pc)
   \<and> exported_functions arm_pc 0x401000 = None
   \<and> fst (unicorn_hook_block (Uc UC_MODE_64) 0x401000 (arm_pc, stop_condition None)) = None"
proof -
  have "\<not> supported_architecture (architecture arm_pc)"
    by (simp add: supported_architecture_def arm_pc_def)
  moreover have "exported_functions arm_pc 0x401000 = None"
    by (simp add: arm_pc_def)
  moreover have
    "fst (unicorn_hook_block (Uc UC_MODE_64) 0x401000 (arm_pc, stop_condition None)) = None"
    by code_simp
  ultimately show ?thesis by blast
qed

section \<open>The environment builder\<close>

lemma ia32_environment_built:
  "\<not> isl (build_environment (Uc UC_MODE_32) UC_X86_REG_ESP UC_X86_REG_EBP 0xff000000
            setup_teb_x86 pc expected) \<Longrightarrow>
   build_environment (Uc UC_MODE_32) UC_X86_REG_ESP UC_X86_REG_EBP 0xff000000
     setup_teb_x86 pc expected = Inr (ia32_environment pc expected)"
  by (cases "build_environment (Uc UC_MODE_32) UC_X86_REG_ESP UC_X86_REG_EBP 0xff000000
               setup_teb_x86 pc expected")
     (simp_all add: ia32_environment_def)

lemma x64_environment_built:
  "\<not> isl (build_environment (Uc UC_MODE_64) UC_X86_REG_RSP UC_X86_REG_RBP 0xff00000000000000
            setup_teb_x64 pc expected) \<Longrightarrow>
   build_environment (Uc UC_MODE_64) UC_X86_REG_RSP UC_X86_REG_RBP 0xff00000000000000
     setup_teb_x64 pc expected = Inr (x64_environment pc expected)"
  by (cases "build_environment (Uc UC_MODE_64) UC_X86_REG_RSP UC_X86_REG_RBP 0xff00000000000000
               setup_teb_x64 pc expected")
     (simp_all add: x64_environment_def)

lemma return_address_from_read:
  assumes "snd (hook_registers (architecture pc)) = Some sp"
    and "mem_read uc (reg_read uc sp) (pointer_size pc)
           = Inr (le_bytes (nat (pointer_size pc)) STACK_MAGIC_RET_ADDR)"
    and "pointer_size pc = 4 \<or> pointer_size pc = 8"
  shows "return_address_on_stack uc pc = Some STACK_MAGIC_RET_ADDR"
proof -
  from assms(3) obtain f where f: "pointer_size_to_fmt (pointer_size pc) = Inr f"
    by (auto simp: pointer_size_to_fmt_def)
  note g = pointer_size_to_fmt_Inr [OF f]
  have "nat (pointer_size pc) = fmt_size f" using g(1) by simp
  then show ?thesis
    using assms(1,2) f le_value_magic [OF g(2)]
    by (simp add: return_address_on_stack_def struct_unpack_def)
qed

text \<open>
  C2 (as amended). Whenever \<open>resolve_wrapped_api\<close> builds the environment, for either
  architecture, the sentinel \<open>STACK_MAGIC_RET_ADDR\<close> is written at the stack's usable top
  (\<open>stack_addr + stack_size - page_size\<close>) as the synthetic return address, whether or
  not the caller supplied an expected return address, and the stack pointer and the frame
  pointer are both set to that top.
\<close>

theorem stack_top_holds_sentinel:
  "(architecture pc = ''ia32'' \<and>
    build_environment (Uc UC_MODE_32) UC_X86_REG_ESP UC_X86_REG_EBP 0xff000000
      setup_teb_x86 pc expected = Inr uc'
    \<longrightarrow> mem_read uc' (0xff000000 + 3 * page_size pc - page_size pc) (pointer_size pc)
            = Inr (le_bytes (nat (pointer_size pc)) STACK_MAGIC_RET_ADDR)
        \<and> return_address_on_stack uc' pc = Some STACK_MAGIC_RET_ADDR
        \<and> reg_read uc' UC_X86_REG_ESP = 0xff000000 + 3 * page_size pc - page_size pc
        \<and> reg_read uc' UC_X86_REG_EBP = 0xff000000 + 3 * page_size pc - page_size pc)
   \<and>
   (architecture pc = ''x64'' \<and>
    build_environment (Uc UC_MODE_64) UC_X86_REG_RSP UC_X86_REG_RBP 0xff00000000000000
      setup_teb_x64 pc expected = Inr uc''
    \<longrightarrow> mem_read uc'' (0xff00000000000000 + 3 * page_size pc - page_size pc) (pointer_size pc)
            = Inr (le_bytes (nat (pointer_size pc)) STACK_MAGIC_RET_ADDR)
        \<and> return_address_on_stack uc'' pc = Some STACK_MAGIC_RET_ADDR
        \<and> reg_read uc'' UC_X86_REG_RSP = 0xff00000000000000 + 3 * page_size pc - page_size pc
        \<and> reg_read uc'' UC_X86_REG_RBP = 0xff00000000000000 + 3 * page_size pc - page_size pc)"
proof (intro conjI impI)
  assume a: "architecture pc = ''ia32'' \<and>
    build_environment (Uc UC_MODE_32) UC_X86_REG_ESP UC_X86_REG_EBP 0xff000000
      setup_teb_x86 pc expected = Inr uc'"
  have t: "uc_regs u' = uc_regs u \<and> (\<exists>rs. uc_regions u' = uc_regions u @ rs) \<and>
           (\<forall>r x. r \<in> set (uc_regions u) \<longrightarrow> in_region x r \<longrightarrow> uc_mem u' x = uc_mem u x)"
    if "setup_teb_x86 u pc = Inr u'" for u u'
    using setup_teb_x86_effect [OF that] by blast
  have fresh: "uc_regions (Uc UC_MODE_32) = []" by (simp add: Uc_def)
  note e = build_environment_stack [OF conjunct2 [OF a] t fresh, simplified]
  show m: "mem_read uc' (0xff000000 + 3 * page_size pc - page_size pc) (pointer_size pc)
            = Inr (le_bytes (nat (pointer_size pc)) STACK_MAGIC_RET_ADDR)"
    and sp: "reg_read uc' UC_X86_REG_ESP = 0xff000000 + 3 * page_size pc - page_size pc"
    and "reg_read uc' UC_X86_REG_EBP = 0xff000000 + 3 * page_size pc - page_size pc"
    using e by simp_all
  have "snd (hook_registers (architecture pc)) = Some UC_X86_REG_ESP"
    using a by (simp add: hook_registers_def)
  from return_address_from_read [OF this _ e(4)] m sp
  show "return_address_on_stack uc' pc = Some STACK_MAGIC_RET_ADDR" by simp
next
  assume a: "architecture pc = ''x64'' \<and>
    build_environment (Uc UC_MODE_64) UC_X86_REG_RSP UC_X86_REG_RBP 0xff00000000000000
      setup_teb_x64 pc expected = Inr uc''"
  have t: "uc_regs u' = uc_regs u \<and> (\<exists>rs. uc_regions u' = uc_regions u @ rs) \<and>
           (\<forall>r x. r \<in> set (uc_regions u) \<longrightarrow> in_region x r \<longrightarrow> uc_mem u' x = uc_mem u x)"
    if "setup_teb_x64 u pc = Inr u'" for u u'
    using setup_teb_x64_effect [OF that] by blast
  have fresh: "uc_regions (Uc UC_MODE_64) = []" by (simp add: Uc_def)
  note e = build_environment_stack [OF conjunct2 [OF a] t fresh, simplified]
  show m: "mem_read uc'' (0xff00000000000000 + 3 * page_size pc - page_size pc) (pointer_size pc)
            = Inr (le_bytes (nat (pointer_size pc)) STACK_MAGIC_RET_ADDR)"
    and sp: "reg_read uc'' UC_X86_REG_RSP = 0xff00000000000000 + 3 * page_size pc - page_size pc"
    and "reg_read uc'' UC_X86_REG_RBP = 0xff00000000000000 + 3 * page_size pc - page_size pc"
    using e by simp_all
  have "snd (hook_registers (architecture pc)) = Some UC_X86_REG_RSP"
    using a by (simp add: hook_registers_def)
  from return_address_from_read [OF this _ e(4)] m sp
  show "return_address_on_stack uc'' pc = Some STACK_MAGIC_RET_ADDR" by simp
qed

theorem stack_top_holds_sentinel_witness:
  "architecture example_pc = ''ia32''
   \<and> \<not> isl (build_environment (Uc UC_MODE_32) UC_X86_REG_ESP UC_X86_REG_EBP 0xff000000
              setup_teb_x86 example_pc (Some 0x401005))
   \<and> return_address_on_stack (ia32_environment example_pc (Some 0x401005)) example_pc
       = Some STACK_MAGIC_RET_ADDR
   \<and> reg_read (ia32_environment example_pc (Some 0x401005)) UC_X86_REG_ESP
       = 0xff000000 + 3 * page_size example_pc - page_size example_pc
   \<and> architecture example_pc64 = ''x64''
   \<and> \<not> isl (build_environment (Uc UC_MODE_64) UC_X86_REG_RSP UC_X86_REG_RBP 0xff00000000000000
              setup_teb_x64 example_pc64 None)
   \<and> return_address_on_stack (x64_environment example_pc64 None) example_pc64
       = Some STACK_MAGIC_RET_ADDR
   \<and> reg_read (x64_environment example_pc64 None) UC_X86_REG_RBP
       = 0xff00000000000000 + 3 * page_size example_pc64 - page_size example_pc64"
proof -
  have a1: "architecture example_pc = ''ia32''"
    by (simp add: example_pc_def)
  have b1: "\<not> isl (build_environment (Uc UC_MODE_32) UC_X86_REG_ESP UC_X86_REG_EBP 0xff000000
              setup_teb_x86 example_pc (Some 0x401005))"
    by code_simp
  have a2: "architecture example_pc64 = ''x64''"
    by (simp add: example_pc64_def)
  have b2: "\<not> isl (build_environment (Uc UC_MODE_64) UC_X86_REG_RSP UC_X86_REG_RBP
              0xff00000000000000 setup_teb_x64 example_pc64 None)"
    by code_simp
  from stack_top_holds_sentinel
         [where pc = example_pc and expected = "Some 0x401005"
            and uc' = "ia32_environment example_pc (Some 0x401005)", THEN conjunct1]
       a1 ia32_environment_built [OF b1]
  have 1: "return_address_on_stack (ia32_environment example_pc (Some 0x401005)) example_pc
       = Some STACK_MAGIC_RET_ADDR"
    and 2: "reg_read (ia32_environment example_pc (Some 0x401005)) UC_X86_REG_ESP
       = 0xff000000 + 3 * page_size example_pc - page_size example_pc"
    by blast+
  from stack_top_holds_sentinel
         [where pc = example_pc64 and expected = None
            and uc'' = "x64_environment example_pc64 None", THEN conjunct2]
       a2 x64_environment_built [OF b2]
  have 3: "return_address_on_stack (x64_environment example_pc64 None) example_pc64
       = Some STACK_MAGIC_RET_ADDR"
    and 4: "reg_read (x64_environment example_pc64 None) UC_X86_REG_RBP
       = 0xff00000000000000 + 3 * page_size example_pc64 - page_size example_pc64"
    by blast+
  from a1 b1 1 2 a2 b2 3 4 show ?thesis by blast
qed

text \<open>
  The claim as stated fails: with an expected return address supplied, the environment is
  built and the bytes at the stack top are those of the sentinel all the same.
\<close>

theorem sentinel_written_with_expected_counterexample:
  "\<not> isl (build_environment (Uc UC_MODE_32) UC_X86_REG_ESP UC_X86_REG_EBP 0xff000000
            setup_teb_x86 example_pc (Some 0x401005))
   \<and> reg_read (ia32_environment example_pc (Some 0x401005)) UC_X86_REG_ESP = 0xff002000
   \<and> mem_read (ia32_environment example_pc (Some 0x401005)) 0xff002000 4
       = Inr [0xEF, 0xBE, 0xAD, 0xDE]
   \<and> le_value [0xEF, 0xBE, 0xAD, 0xDE] = STACK_MAGIC_RET_ADDR"
proof -
  have "\<not> isl (build_environment (Uc UC_MODE_32) UC_X86_REG_ESP UC_X86_REG_EBP 0xff000000
            setup_teb_x86 example_pc (Some 0x401005))"
    by code_simp
  moreover have
    "reg_read (ia32_environment example_pc (Some 0x401005)) UC_X86_REG_ESP = 0xff002000"
    by code_simp
  moreover have "mem_read (ia32_environment example_pc (Some 0x401005)) 0xff002000 4
       = Inr [0xEF, 0xBE, 0xAD, 0xDE]"
    by code_simp
  moreover have "le_value [0xEF, 0xBE, 0xAD, 0xDE] = STACK_MAGIC_RET_ADDR"
    by code_simp
  ultimately show ?thesis by blast
qed

section \<open>The real process is only read\<close>

text \<open>
  C8. Whatever \<open>resolve_wrapped_api\<close> answers, the process controller it leaves
  behind is the one it was given but for the record of method calls: the memory image
  and every other part are unchanged, and every call the resolution added to the record
  is a memory read or an export enumeration.
\<close>

theorem resolution_only_reads:
  assumes "resolve_wrapped_api fuel cpu start pc expected = Some res"
  shows "only_calls_added pc (snd (snd res))
         \<and> memory_image (snd (snd res)) = memory_image pc
         \<and> (\<forall>c \<in> set (calls (snd (snd res))).
               c \<in> set (calls pc) \<or> c = EnumerateExportedFunctions \<or>
               (\<exists>a n. c = ReadProcessMemory a n))"
proof -
  have f: "only_calls_added pc (snd (snd res))"
  proof (cases "supported_architecture (architecture pc)")
    case True
    with assms show ?thesis
      by (auto simp: resolve_wrapped_api_def supported_architecture_def Let_def
          split: if_splits intro: resolve_with_frame)
  next
    case False
    with assms show ?thesis
      by (auto simp: resolve_wrapped_api_def supported_architecture_def Let_def)
  qed
  then obtain cs where cs: "snd (snd res) = pc\<lparr>calls := calls pc @ cs\<rparr>"
    unfolding only_calls_added_def by blast
  have "c = EnumerateExportedFunctions \<or> (\<exists>a n. c = ReadProcessMemory a n)" for c
    by (cases c) auto
  with f cs show ?thesis by auto
qed

theorem resolution_only_reads_witness:
  "result_calls (resolve_wrapped_api 4 example_cpu 0x401000 example_pc None)
     = Some [ReadProcessMemory 0x401000 0x1000, EnumerateExportedFunctions,
             ReadProcessMemory 0x70000000 0x1000, EnumerateExportedFunctions]
   \<and> only_calls_added example_pc
        (snd (snd (the (resolve_wrapped_api 4 example_cpu 0x401000 example_pc None))))
   \<and> memory_image (snd (snd (the (resolve_wrapped_api 4 example_cpu 0x401000 example_pc None))))
       = memory_image example_pc"
proof -
  have c: "result_calls (resolve_wrapped_api 4 example_cpu 0x401000 example_pc None)
     = Some [ReadProcessMemory 0x401000 0x1000, EnumerateExportedFunctions,
             ReadProcessMemory 0x70000000 0x1000, EnumerateExportedFunctions]"
    by code_simp
  then obtain res where r: "resolve_wrapped_api 4 example_cpu 0x401000 example_pc None = Some res"
    by (auto simp: result_calls_def)
  from resolution_only_reads [OF r] c r show ?thesis by simp
qed

section \<open>The end of the window\<close>

text \<open>
  C4 (as amended). For every emulation run that ends because the program counter reached
  the end of the window, \<open>wrapper_start_addr + 1024\<close>, without the block callback having
  requested a stop, \<open>resolve_wrapped_api\<close> returns that program-counter value,
  \<open>wrapper_start_addr + 1024\<close>, and not "no result".
\<close>

theorem window_end_returns_pc:
  "(architecture pc = ''ia32'' \<and>
    build_environment (Uc UC_MODE_32) UC_X86_REG_ESP UC_X86_REG_EBP 0xff000000
      setup_teb_x86 pc expected = Inr uc1 \<and>
    emu_start fuel cpu uc1 start (start + 1024) pc = Some (None, uc2, pc2) \<and>
    \<not> uc_stop_request uc2
    \<longrightarrow> resolve_wrapped_api fuel cpu start pc expected
          = Some (Inr (Some (start + 1024)), Some uc2, pc2))
   \<and>
   (architecture pc = ''x64'' \<and>
    build_environment (Uc UC_MODE_64) UC_X86_REG_RSP UC_X86_REG_RBP 0xff00000000000000
      setup_teb_x64 pc expected = Inr uc1' \<and>
    emu_start fuel cpu uc1' start (start + 1024) pc = Some (None, uc2', pc2') \<and>
    \<not> uc_stop_request uc2'
    \<longrightarrow> resolve_wrapped_api fuel cpu start pc expected
          = Some (Inr (Some (start + 1024)), Some uc2', pc2'))"
proof (intro conjI impI)
  assume a: "architecture pc = ''ia32'' \<and>
    build_environment (Uc UC_MODE_32) UC_X86_REG_ESP UC_X86_REG_EBP 0xff000000
      setup_teb_x86 pc expected = Inr uc1 \<and>
    emu_start fuel cpu uc1 start (start + 1024) pc = Some (None, uc2, pc2) \<and>
    \<not> uc_stop_request uc2"
  then have b: "build_environment (Uc UC_MODE_32) UC_X86_REG_ESP UC_X86_REG_EBP 0xff000000
      setup_teb_x86 pc expected = Inr uc1"
    and r: "emu_start fuel cpu uc1 start (start + 1024) pc = Some (None, uc2, pc2)"
    and n: "\<not> uc_stop_request uc2" by blast+
  have "uc_mode_of uc1 = UC_MODE_32"
    using ia32_environment_shape(1) [OF b] by (simp add: Uc_def)
  with emu_start_clean_exit [OF r n] have "reg_read uc2 UC_X86_REG_EIP = start + 1024"
    by (simp add: engine_pc_def)
  with a resolve_with_run [OF b, of fuel cpu UC_X86_REG_EIP start] r
  show "resolve_wrapped_api fuel cpu start pc expected
          = Some (Inr (Some (start + 1024)), Some uc2, pc2)"
    by (simp add: resolve_wrapped_api_def Let_def)
next
  assume a: "architecture pc = ''x64'' \<and>
    build_environment (Uc UC_MODE_64) UC_X86_REG_RSP UC_X86_REG_RBP 0xff00000000000000
      setup_teb_x64 pc expected = Inr uc1' \<and>
    emu_start fuel cpu uc1' start (start + 1024) pc = Some (None, uc2', pc2') \<and>
    \<not> uc_stop_request uc2'"
  then have b: "build_environment (Uc UC_MODE_64) UC_X86_REG_RSP UC_X86_REG_RBP
      0xff00000000000000 setup_teb_x64 pc expected = Inr uc1'"
    and r: "emu_start fuel cpu uc1' start (start + 1024) pc = Some (None, uc2', pc2')"
    and n: "\<not> uc_stop_request uc2'" by blast+
  have "uc_mode_of uc1' = UC_MODE_64"
    using x64_environment_shape(1) [OF b] by (simp add: Uc_def)
  with emu_start_clean_exit [OF r n] have "reg_read uc2' UC_X86_REG_RIP = start + 1024"
    by (simp add: engine_pc_def)
  with a resolve_with_run [OF b, of fuel cpu UC_X86_REG_RIP start] r
  show "resolve_wrapped_api fuel cpu start pc expected
          = Some (Inr (Some (start + 1024)), Some uc2', pc2')"
    by (simp add: resolve_wrapped_api_def Let_def)
qed

theorem window_end_returns_pc_witness:
  "architecture bound_pc = ''ia32''
   \<and> \<not> isl (build_environment (Uc UC_MODE_32) UC_X86_REG_ESP UC_X86_REG_EBP 0xff000000
              setup_teb_x86 bound_pc None)
   \<and> fst (the (emu_start 3 example_cpu (ia32_environment bound_pc None) 0x401000
                  (0x401000 + 1024) bound_pc)) = None
   \<and> result_value (resolve_wrapped_api 3 example_cpu 0x401000 bound_pc None)
       = Some (Inr (Some (0x401000 + 1024)))
   \<and> architecture bound_pc64 = ''x64''
   \<and> \<not> isl (build_environment (Uc UC_MODE_64) UC_X86_REG_RSP UC_X86_REG_RBP 0xff00000000000000
              setup_teb_x64 bound_pc64 None)
   \<and> fst (the (emu_start 3 example_cpu (x64_environment bound_pc64 None) 0x401000
                  (0x401000 + 1024) bound_pc64)) = None
   \<and> result_value (resolve_wrapped_api 3 example_cpu 0x401000 bound_pc64 None)
       = Some (Inr (Some (0x401000 + 1024)))"
proof -
  have a1: "architecture bound_pc = ''ia32''"
    by (simp add: bound_pc_def)
  have b1: "\<not> isl (build_environment (Uc UC_MODE_32) UC_X86_REG_ESP UC_X86_REG_EBP 0xff000000
              setup_teb_x86 bound_pc None)"
    by code_simp
  have "case emu_start 3 example_cpu (ia32_environment bound_pc None) 0x401000
               (0x401000 + 1024) bound_pc of
          Some (None, uc2, pc2) \<Rightarrow> \<not> uc_stop_request uc2
        | _ \<Rightarrow> False"
    by code_simp
  then obtain uc2 pc2 where
    r1: "emu_start 3 example_cpu (ia32_environment bound_pc None) 0x401000
           (0x401000 + 1024) bound_pc = Some (None, uc2, pc2)"
    and n1: "\<not> uc_stop_request uc2"
    by (auto split: option.splits prod.splits)
  from window_end_returns_pc
         [where pc = bound_pc and expected = None and fuel = 3 and cpu = example_cpu
            and start = "0x401000" and ?uc1.0 = "ia32_environment bound_pc None"
            and ?uc2.0 = uc2 and ?pc2.0 = pc2, THEN conjunct1]
       a1 ia32_environment_built [OF b1] r1 n1
  have v1: "result_value (resolve_wrapped_api 3 example_cpu 0x401000 bound_pc None)
       = Some (Inr (Some (0x401000 + 1024)))"
    by (simp add: result_value_def)
  have a2: "architecture bound_pc64 = ''x64''"
    by (simp add: bound_pc64_def)
  have b2: "\<not> isl (build_environment (Uc UC_MODE_64) UC_X86_REG_RSP UC_X86_REG_RBP
              0xff00000000000000 setup_teb_x64 bound_pc64 None)"
    by code_simp
  have "case emu_start 3 example_cpu (x64_environment bound_pc64 None) 0x401000
               (0x401000 + 1024) bound_pc64 of
          Some (None, uc2, pc2) \<Rightarrow> \<not> uc_stop_request uc2
        | _ \<Rightarrow> False"
    by code_simp
  then obtain uc2' pc2' where
    r2: "emu_start 3 example_cpu (x64_environment bound_pc64 None) 0x401000
           (0x401000 + 1024) bound_pc64 = Some (None, uc2', pc2')"
    and n2: "\<not> uc_stop_request uc2'"
    by (auto split: option.splits prod.splits)
  from window_end_returns_pc
         [where pc = bound_pc64 and expected = None and fuel = 3 and cpu = example_cpu
            and start = "0x401000" and uc1' = "x64_environment bound_pc64 None"
            and uc2' = uc2' and pc2' = pc2', THEN conjunct2]
       a2 x64_environment_built [OF b2] r2 n2
  have v2: "result_value (resolve_wrapped_api 3 example_cpu 0x401000 bound_pc64 None)
       = Some (Inr (Some (0x401000 + 1024)))"
    by (simp add: result_value_def)
  from a1 b1 r1 v1 a2 b2 r2 v2 show ?thesis by simp
qed

text \<open>
  The claim as stated fails: the wrapper \<open>jmp 0x401400\<close> in a process without exports
  runs to the end of the window, no stop is ever requested, and the resolution returns
  the program counter \<open>0x401400\<close>, not "no result".
\<close>

theorem window_end_counterexample:
  "exported_functions bound_pc 0x401000 = None
   \<and> exported_functions bound_pc 0x401400 = None
   \<and> \<not> result_stopped (resolve_wrapped_api 3 example_cpu 0x401000 bound_pc None)
   \<and> result_value (resolve_wrapped_api 3 example_cpu 0x401000 bound_pc None)
       = Some (Inr (Some 0x401400))"
proof -
  have "exported_functions bound_pc 0x401000 = None" "exported_functions bound_pc 0x401400 = None"
    by (simp_all add: bound_pc_def)
  moreover have "\<not> result_stopped (resolve_wrapped_api 3 example_cpu 0x401000 bound_pc None)"
    by code_simp
  moreover have "result_value (resolve_wrapped_api 3 example_cpu 0x401000 bound_pc None)
       = Some (Inr (Some 0x401400))"
    by code_simp
  ultimately show ?thesis by blast
qed

section \<open>Unsupported architectures\<close>

text \<open>
  C7. For every architecture tag other than \<open>ia32\<close> and \<open>x64\<close>,
  \<open>resolve_wrapped_api\<close> raises \<open>NotImplementedError\<close> before any emulator resource
  exists: no emulator instance is created, hence no memory mapped, and the process
  controller is as it was. For the two supported tags it proceeds: whatever it answers, an
  emulator instance was created and the answer is not that configuration error.
\<close>

theorem unsupported_architecture_aborts:
  "(\<not> supported_architecture (architecture pc) \<longrightarrow>
      resolve_wrapped_api fuel cpu start pc expected =
        Some (Inl (NotImplementedError (unsupported_message (architecture pc))), None, pc))
   \<and>
   (supported_architecture (architecture pc) \<longrightarrow>
      (\<forall>res. resolve_wrapped_api fuel cpu start pc expected = Some res \<longrightarrow>
         fst (snd res) \<noteq> None \<and>
         fst res \<noteq> Inl (NotImplementedError (unsupported_message (architecture pc)))))"
proof (intro conjI impI allI)
  assume "\<not> supported_architecture (architecture pc)"
  then show "resolve_wrapped_api fuel cpu start pc expected =
        Some (Inl (NotImplementedError (unsupported_message (architecture pc))), None, pc)"
    by (simp add: supported_architecture_def resolve_wrapped_api_def Let_def)
next
  fix res
  assume s: "supported_architecture (architecture pc)"
    and r: "resolve_wrapped_api fuel cpu start pc expected = Some res"
  from resolve_supported_outcome [OF s r]
  show "fst (snd res) \<noteq> None"
    and "fst res \<noteq> Inl (NotImplementedError (unsupported_message (architecture pc)))"
    by blast+
qed

theorem unsupported_architecture_aborts_witness:
  "\<not> supported_architecture (architecture arm_pc)
   \<and> resolve_wrapped_api 4 example_cpu 0x401000 arm_pc None =
       Some (Inl (NotImplementedError (unsupported_message ''arm64'')), None, arm_pc)
   \<and> supported_architecture (architecture bound_pc)
   \<and> resolve_wrapped_api 3 example_cpu 0x401000 bound_pc None \<noteq> None
   \<and> fst (snd (the (resolve_wrapped_api 3 example_cpu 0x401000 bound_pc None))) \<noteq> None"
proof -
  have u: "\<not> supported_architecture (architecture arm_pc)"
    by (simp add: supported_architecture_def arm_pc_def)
  have a: "architecture arm_pc = ''arm64''"
    by (simp add: arm_pc_def)
  have s: "supported_architecture (architecture bound_pc)"
    by (simp add: supported_architecture_def bound_pc_def)
  have "result_value (resolve_wrapped_api 3 example_cpu 0x401000 bound_pc None)
          = Some (Inr (Some 0x401400))"
    by code_simp
  then obtain res where r: "resolve_wrapped_api 3 example_cpu 0x401000 bound_pc None = Some res"
    by (auto simp: result_value_def)
  from unsupported_architecture_aborts [of arm_pc 4 example_cpu "0x401000" None] u a
  have 1: "resolve_wrapped_api 4 example_cpu 0x401000 arm_pc None =
       Some (Inl (NotImplementedError (unsupported_message ''arm64'')), None, arm_pc)"
    by simp
  from unsupported_architecture_aborts [of bound_pc 3 example_cpu "0x401000" None] s r
  have 2: "fst (snd res) \<noteq> None" by blast
  from u 1 s r 2 show ?thesis by simp
qed

section \<open>Faults during the run\<close>

text \<open>
  C3. \<open>resolve_wrapped_api\<close> never lets a \<open>UcError\<close> of the engine reach its caller;
  whenever the engine reports such a fault during the run, it returns "no result"
  (\<open>None\<close>); and whenever emulation takes place at all (a supported architecture, a
  pointer size of 4 or 8) and every read of the real process fails, it returns
  "no result": the first fetch finds no executable page, so the run ends in its first
  round, whatever positive number of rounds is granted.
\<close>

theorem faults_give_no_result:
  "(\<forall>e em p. resolve_wrapped_api fuel cpu start pc expected \<noteq> Some (Inl (UcError e), em, p))
   \<and>
   (architecture pc = ''ia32'' \<and>
    build_environment (Uc UC_MODE_32) UC_X86_REG_ESP UC_X86_REG_EBP 0xff000000
      setup_teb_x86 pc expected = Inr uc1 \<and>
    emu_start fuel cpu uc1 start (start + 1024) pc = Some (Some (UcError e1), uc2, pc2)
    \<longrightarrow> resolve_wrapped_api fuel cpu start pc expected = Some (Inr None, Some uc2, pc2))
   \<and>
   (architecture pc = ''x64'' \<and>
    build_environment (Uc UC_MODE_64) UC_X86_REG_RSP UC_X86_REG_RBP 0xff00000000000000
      setup_teb_x64 pc expected = Inr uc1' \<and>
    emu_start fuel cpu uc1' start (start + 1024) pc = Some (Some (UcError e1'), uc2', pc2')
    \<longrightarrow> resolve_wrapped_api fuel cpu start pc expected = Some (Inr None, Some uc2', pc2'))
   \<and>
   (supported_architecture (architecture pc) \<and>
    (pointer_size pc = 4 \<or> pointer_size pc = 8) \<and>
    (\<forall>a n. memory_image pc a n = None) \<and> 0 < fuel
    \<longrightarrow> result_value (resolve_wrapped_api fuel cpu start pc expected) = Some (Inr None))"
proof (intro conjI impI allI)
  fix e em p
  show "resolve_wrapped_api fuel cpu start pc expected \<noteq> Some (Inl (UcError e), em, p)"
  proof (cases "supported_architecture (architecture pc)")
    case True
    show ?thesis
    proof
      assume "resolve_wrapped_api fuel cpu start pc expected = Some (Inl (UcError e), em, p)"
      from resolve_supported_outcome [OF True this] show False by simp
    qed
  next
    case False
    then show ?thesis
      by (simp add: supported_architecture_def resolve_wrapped_api_def Let_def)
  qed
next
  assume a: "architecture pc = ''ia32'' \<and>
    build_environment (Uc UC_MODE_32) UC_X86_REG_ESP UC_X86_REG_EBP 0xff000000
      setup_teb_x86 pc expected = Inr uc1 \<and>
    emu_start fuel cpu uc1 start (start + 1024) pc = Some (Some (UcError e1), uc2, pc2)"
  then have b: "build_environment (Uc UC_MODE_32) UC_X86_REG_ESP UC_X86_REG_EBP 0xff000000
      setup_teb_x86 pc expected = Inr uc1" by blast
  from a resolve_with_run [OF b, of fuel cpu UC_X86_REG_EIP start]
  show "resolve_wrapped_api fuel cpu start pc expected = Some (Inr None, Some uc2, pc2)"
    by (simp add: resolve_wrapped_api_def Let_def is_UcError_def)
next
  assume a: "architecture pc = ''x64'' \<and>
    build_environment (Uc UC_MODE_64) UC_X86_REG_RSP UC_X86_REG_RBP 0xff00000000000000
      setup_teb_x64 pc expected = Inr uc1' \<and>
    emu_start fuel cpu uc1' start (start + 1024) pc = Some (Some (UcError e1'), uc2', pc2')"
  then have b: "build_environment (Uc UC_MODE_64) UC_X86_REG_RSP UC_X86_REG_RBP
      0xff00000000000000 setup_teb_x64 pc expected = Inr uc1'" by blast
  from a resolve_with_run [OF b, of fuel cpu UC_X86_REG_RIP start]
  show "resolve_wrapped_api fuel cpu start pc expected = Some (Inr None, Some uc2', pc2')"
    by (simp add: resolve_wrapped_api_def Let_def is_UcError_def)
next
  assume a: "supported_architecture (architecture pc) \<and>
    (pointer_size pc = 4 \<or> pointer_size pc = 8) \<and>
    (\<forall>a n. memory_image pc a n = None) \<and> 0 < fuel"
  then obtain k where k: "fuel = Suc k" by (cases fuel) auto
  from a have "supported_architecture (architecture pc)"
    "pointer_size pc = 4 \<or> pointer_size pc = 8" "\<forall>a n. memory_image pc a n = None"
    by blast+
  from resolve_unreadable [OF this, of k cpu start expected] k
  show "result_value (resolve_wrapped_api fuel cpu start pc expected) = Some (Inr None)"
    by simp
qed

theorem faults_give_no_result_witness:
  "architecture unreadable_pc = ''ia32''
   \<and> \<not> isl (build_environment (Uc UC_MODE_32) UC_X86_REG_ESP UC_X86_REG_EBP 0xff000000
              setup_teb_x86 unreadable_pc None)
   \<and> fst (the (emu_start 1 example_cpu (ia32_environment unreadable_pc None) 0x401000
                  (0x401000 + 1024) unreadable_pc)) = Some (UcError UC_ERR_FETCH_UNMAPPED)
   \<and> result_value (resolve_wrapped_api 1 example_cpu 0x401000 unreadable_pc None)
       = Some (Inr None)
   \<and> architecture unreadable_pc64 = ''x64''
   \<and> \<not> isl (build_environment (Uc UC_MODE_64) UC_X86_REG_RSP UC_X86_REG_RBP 0xff00000000000000
              setup_teb_x64 unreadable_pc64 None)
   \<and> fst (the (emu_start 1 example_cpu (x64_environment unreadable_pc64 None) 0x401000
                  (0x401000 + 1024) unreadable_pc64)) = Some (UcError UC_ERR_FETCH_UNMAPPED)
   \<and> result_value (resolve_wrapped_api 1 example_cpu 0x401000 unreadable_pc64 None)
       = Some (Inr None)
   \<and> supported_architecture (architecture unreadable_pc)
   \<and> pointer_size unreadable_pc = 4
   \<and> (\<forall>a n. memory_image unreadable_pc a n = None)
   \<and> result_value (resolve_wrapped_api 2 example_cpu 0x401000 unreadable_pc (Some 0x401005))
       = Some (Inr None)"
proof -
  have a1: "architecture unreadable_pc = ''ia32''"
    by (simp add: unreadable_pc_def)
  have b1: "\<not> isl (build_environment (Uc UC_MODE_32) UC_X86_REG_ESP UC_X86_REG_EBP 0xff000000
              setup_teb_x86 unreadable_pc None)"
    by code_simp
  have "case emu_start 1 example_cpu (ia32_environment unreadable_pc None) 0x401000
               (0x401000 + 1024) unreadable_pc of
          Some (Some e, uc2, pc2) \<Rightarrow> e = UcError UC_ERR_FETCH_UNMAPPED
        | _ \<Rightarrow> False"
    by code_simp
  then obtain uc2 pc2 where
    r1: "emu_start 1 example_cpu (ia32_environment unreadable_pc None) 0x401000
           (0x401000 + 1024) unreadable_pc = Some (Some (UcError UC_ERR_FETCH_UNMAPPED), uc2, pc2)"
    by (auto split: option.splits prod.splits)
  from faults_give_no_result
         [where pc = unreadable_pc and expected = None and fuel = 1 and cpu = example_cpu
            and start = "0x401000" and ?uc1.0 = "ia32_environment unreadable_pc None"
            and ?e1.0 = UC_ERR_FETCH_UNMAPPED and ?uc2.0 = uc2 and ?pc2.0 = pc2,
          THEN conjunct2, THEN conjunct1]
       a1 ia32_environment_built [OF b1] r1
  have v1: "result_value (resolve_wrapped_api 1 example_cpu 0x401000 unreadable_pc None)
       = Some (Inr None)"
    by (simp add: result_value_def)
  have a2: "architecture unreadable_pc64 = ''x64''"
    by (simp add: unreadable_pc64_def)
  have b2: "\<not> isl (build_environment (Uc UC_MODE_64) UC_X86_REG_RSP UC_X86_REG_RBP
              0xff00000000000000 setup_teb_x64 unreadable_pc64 None)"
    by code_simp
  have "case emu_start 1 example_cpu (x64_environment unreadable_pc64 None) 0x401000
               (0x401000 + 1024) unreadable_pc64 of
          Some (Some e, uc2, pc2) \<Rightarrow> e = UcError UC_ERR_FETCH_UNMAPPED
        | _ \<Rightarrow> False"
    by code_simp
  then obtain uc2' pc2' where
    r2: "emu_start 1 example_cpu (x64_environment unreadable_pc64 None) 0x401000
           (0x401000 + 1024) unreadable_pc64
           = Some (Some (UcError UC_ERR_FETCH_UNMAPPED), uc2', pc2')"
    by (auto split: option.splits prod.splits)
  from faults_give_no_result
         [where pc = unreadable_pc64 and expected = None and fuel = 1 and cpu = example_cpu
            and start = "0x401000" and uc1' = "x64_environment unreadable_pc64 None"
            and e1' = UC_ERR_FETCH_UNMAPPED and uc2' = uc2' and pc2' = pc2',
          THEN conjunct2, THEN conjunct2, THEN conjunct1]
       a2 x64_environment_built [OF b2] r2
  have v2: "result_value (resolve_wrapped_api 1 example_cpu 0x401000 unreadable_pc64 None)
       = Some (Inr None)"
    by (simp add: result_value_def)
  have s: "supported_architecture (architecture unreadable_pc)"
    by (simp add: supported_architecture_def unreadable_pc_def)
  have p: "pointer_size unreadable_pc = 4"
    by (simp add: unreadable_pc_def)
  have m: "\<forall>a n. memory_image unreadable_pc a n = None"
    by (simp add: unreadable_pc_def)
  from faults_give_no_result
         [where pc = unreadable_pc and expected = "Some 0x401005" and fuel = 2
            and cpu = example_cpu and start = "0x401000",
          THEN conjunct2, THEN conjunct2, THEN conjunct2]
       s p m
  have v3: "result_value (resolve_wrapped_api 2 example_cpu 0x401000 unreadable_pc (Some 0x401005))
       = Some (Inr None)"
    by simp
  from a1 b1 r1 v1 a2 b2 r2 v2 s p m v3 show ?thesis by simp
qed

section \<open>Determinism\<close>



end
